theory Spec2Isabelle
  imports Main
begin

section \<open>The interface of the fixed-point engine, as the harness sees it\<close>

text \<open>
  \<^verbatim>\<open>demo.py\<close> imports the module \<^verbatim>\<open>FixedPoint\<close> and calls into it; the module
  itself is not part of the sources at hand. The harness is therefore modelled over an
  engine given as a record of operations, each returning either an error (a raised
  exception) or a value. Families and Numbers carry the fields of the data model:
  the harness reads \<^verbatim>\<open>x.family\<close> and \<^verbatim>\<open>family.resolution\<close>.
\<close>

datatype fx_error =
    FXoverflowError
  | DomainError
  | DivisionByZero
  | FamilyMismatch
  | KeyError

record family =
  resolution :: nat
  integerBits :: nat

record fxnum =
  scaledValue :: int
  family :: family

text \<open>
  An operand of a Python operator or of the \<^verbatim>\<open>FXnum\<close> constructor: a Number, an
  integer literal, or a float literal. A float literal is kept as the fraction its
  decimal text denotes: \<^verbatim>\<open>0.1\<close> is \<open>FloatLit 1 10\<close>.
\<close>

datatype operand = Num fxnum | IntLit int | FloatLit int int

datatype cname = Pi | Exp1 | Log2

record engine =
  FXfamily :: "nat \<Rightarrow> nat option \<Rightarrow> fx_error + family"
  FXnum :: "operand \<Rightarrow> family \<Rightarrow> fx_error + fxnum"
  fx_sqrt :: "fxnum \<Rightarrow> fx_error + fxnum"
  fx_exp :: "fxnum \<Rightarrow> fx_error + fxnum"
  fx_log :: "fxnum \<Rightarrow> fx_error + fxnum"
  fx_atan :: "fxnum \<Rightarrow> fx_error + fxnum"
  fx_abs :: "fxnum \<Rightarrow> fx_error + fxnum"
  fx_add :: "fxnum \<Rightarrow> operand \<Rightarrow> fx_error + fxnum"
  fx_sub :: "fxnum \<Rightarrow> operand \<Rightarrow> fx_error + fxnum"
  fx_mul :: "fxnum \<Rightarrow> operand \<Rightarrow> fx_error + fxnum"
  fx_rmul :: "fxnum \<Rightarrow> operand \<Rightarrow> fx_error + fxnum"
  fx_div :: "fxnum \<Rightarrow> operand \<Rightarrow> fx_error + fxnum"
  fx_constant :: "cname \<Rightarrow> family \<Rightarrow> fx_error + fxnum"

section \<open>What a demo leaves behind\<close>

text \<open>
  A printed line is a list of pieces: the fixed text of the format string and the values
  put into its holes. \<open>Str x\<close> stands for \<^verbatim>\<open>str(x)\<close> of a Number, \<open>Float3g x\<close> for
  \<^verbatim>\<open>float(x)\<close> under \<^verbatim>\<open>{:.3g}\<close>, \<open>Int2d n\<close> for \<^verbatim>\<open>{:2d}\<close>. The two readings of
  \<^verbatim>\<open>time.clock()\<close> and the figures derived from them are wall-clock quantities; the
  pieces \<open>Elapsed\<close> and \<open>Rate n\<close> mark their places in the line. The calls into
  matplotlib are recorded as one event holding the data handed over.
\<close>

datatype piece =
    Txt string
  | IntD int
  | Int2d int
  | Str fxnum
  | Float3g fxnum
  | Elapsed
  | Rate int

datatype out =
    Print "piece list"
  | PlotPi fxnum "(nat \<times> fxnum) list"
  | PlotLosses "(nat \<times> fxnum \<times> fxnum) list"

text \<open>
  A finished run is the output so far and the exception that ended it, if any.
  A run that never ends is \<open>None\<close>.
\<close>

type_synonym run = "out list \<times> fx_error option"

fun for_each :: "('a \<Rightarrow> run) \<Rightarrow> 'a list \<Rightarrow> run" where
  "for_each body [] = ([], None)"
| "for_each body (a # as) =
     (case body a of
        (out1, Some e) \<Rightarrow> (out1, Some e)
      | (out1, None) \<Rightarrow> (case for_each body as of (out2, r) \<Rightarrow> (out1 @ out2, r)))"

fun for_each_opt :: "('a \<Rightarrow> run option) \<Rightarrow> 'a list \<Rightarrow> run option" where
  "for_each_opt body [] = Some ([], None)"
| "for_each_opt body (a # as) =
     (case body a of
        None \<Rightarrow> None
      | Some (out1, Some e) \<Rightarrow> Some (out1, Some e)
      | Some (out1, None) \<Rightarrow>
          (case for_each_opt body as of
             None \<Rightarrow> None
           | Some (out2, r) \<Rightarrow> Some (out1 @ out2, r)))"

section \<open>basicDemo\<close>

definition basicDemo_body :: "engine \<Rightarrow> nat \<Rightarrow> run" where
  "basicDemo_body E resolution' =
     (case FXfamily E resolution' None of
        Inl e \<Rightarrow> ([], Some e)
      | Inr family' \<Rightarrow>
          (let val = 2;
               l1 = Print [Txt ''=== '', IntD (int resolution'), Txt '' bits ==='']
           in case FXnum E (IntLit val) family' of
                Inl e \<Rightarrow> ([l1], Some e)
              | Inr v \<Rightarrow>
                  (case fx_sqrt E v of
                     Inl e \<Rightarrow> ([l1], Some e)
                   | Inr rt \<Rightarrow>
                       (let l2 = Print [Txt ''sqrt('', IntD val, Txt '')~ '', Str rt]
                        in case fx_mul E rt (Num rt) of
                             Inl e \<Rightarrow> ([l1, l2], Some e)
                           | Inr sq \<Rightarrow>
                               (let l3 = Print [Txt ''sqrt('', IntD val, Txt '')^2 ~ '', Str sq]
                                in case fx_constant E Exp1 family' of
                                     Inl e \<Rightarrow> ([l1, l2, l3], Some e)
                                   | Inr e1 \<Rightarrow>
                                       ([l1, l2, l3,
                                         Print [Txt ''exp(1) ~ '', Str e1],
                                         Print []], None))))))"

definition basicDemo :: "engine \<Rightarrow> run" where
  "basicDemo E = for_each (basicDemo_body E) [8, 32, 80, 274]"

section \<open>overflowDemo\<close>

text \<open>
  The inner loop \<^verbatim>\<open>while True\<close>: \<open>Some (Inr x)\<close> is the \<^verbatim>\<open>break\<close> taken at \<open>x\<close>,
  \<open>Some (Inl e)\<close> an exception leaving the loop uncaught, \<open>None\<close> a loop that runs
  forever. The \<^verbatim>\<open>try\<close> encloses the call of \<^verbatim>\<open>exp\<close> only; \<^verbatim>\<open>x += step\<close> is outside.
\<close>

partial_function (option) whileLoop :: "engine \<Rightarrow> operand \<Rightarrow> fxnum \<Rightarrow> (fx_error + fxnum) option" where
  "whileLoop E step x =
     (case fx_exp E x of
        Inl e \<Rightarrow> (if e = FXoverflowError then Some (Inr x) else Some (Inl e))
      | Inr ex \<Rightarrow>
          (case fx_add E x step of
             Inl e \<Rightarrow> Some (Inl e)
           | Inr x' \<Rightarrow> whileLoop E step x'))"

definition overflowDemo_body :: "engine \<Rightarrow> nat \<Rightarrow> nat \<Rightarrow> run option" where
  "overflowDemo_body E res intsize =
     (case FXfamily E res (Some intsize) of
        Inl e \<Rightarrow> Some ([], Some e)
      | Inr family' \<Rightarrow>
          (case FXnum E (FloatLit 0 10) family' of
             Inl e \<Rightarrow> Some ([], Some e)
           | Inr x0 \<Rightarrow>
               (let step = FloatLit 1 10
                in case whileLoop E step x0 of
                     None \<Rightarrow> None
                   | Some (Inl e) \<Rightarrow> Some ([], Some e)
                   | Some (Inr x) \<Rightarrow>
                       Some ([Print [Int2d (int intsize),
                                Txt ''-bit integer part: exp(x) overflows near x='',
                                Float3g x]], None))))"

definition overflowDemo :: "engine \<Rightarrow> run option" where
  "overflowDemo E =
     (let res = 20;
          l0 = Print [Txt ''=== '', IntD (int res), Txt ''-bit fractional part ==='']
      in case for_each_opt (overflowDemo_body E res) [4, 8, 16, 32] of
           None \<Rightarrow> None
         | Some (outs, Some e) \<Rightarrow> Some (l0 # outs, Some e)
         | Some (outs, None) \<Rightarrow> Some (l0 # outs @ [Print []], None))"

section \<open>speedDemo\<close>

text \<open>
  \<^verbatim>\<open>x = lmb * x * (one - x)\<close>: Python evaluates \<^verbatim>\<open>lmb * x\<close>, then \<^verbatim>\<open>one - x\<close>, then
  the product of the two.
\<close>

definition logistic_step :: "engine \<Rightarrow> fxnum \<Rightarrow> fxnum \<Rightarrow> fxnum \<Rightarrow> fx_error + fxnum" where
  "logistic_step E lmb one x =
     (case fx_mul E lmb (Num x) of
        Inl e \<Rightarrow> Inl e
      | Inr lx \<Rightarrow>
          (case fx_sub E one (Num x) of
             Inl e \<Rightarrow> Inl e
           | Inr ox \<Rightarrow> fx_mul E lx (Num ox)))"

primrec logistic_loop :: "engine \<Rightarrow> fxnum \<Rightarrow> fxnum \<Rightarrow> nat \<Rightarrow> fxnum \<Rightarrow> fx_error + fxnum" where
  "logistic_loop E lmb one 0 x = Inr x"
| "logistic_loop E lmb one (Suc n) x =
     (case logistic_step E lmb one x of
        Inl e \<Rightarrow> Inl e
      | Inr x' \<Rightarrow> logistic_loop E lmb one n x')"

definition speedDemo_arith :: "engine \<Rightarrow> nat \<times> nat \<Rightarrow> run" where
  "speedDemo_arith E rc =
     (case rc of (res, count) \<Rightarrow>
        (case FXfamily E res None of
           Inl e \<Rightarrow> ([], Some e)
         | Inr fam \<Rightarrow>
             (case FXnum E (FloatLit 5 10) fam of
                Inl e \<Rightarrow> ([], Some e)
              | Inr x \<Rightarrow>
                  (case FXnum E (FloatLit 36 10) fam of
                     Inl e \<Rightarrow> ([], Some e)
                   | Inr lmb \<Rightarrow>
                       (case FXnum E (FloatLit 10 10) fam of
                          Inl e \<Rightarrow> ([], Some e)
                        | Inr one \<Rightarrow>
                            (case logistic_loop E lmb one count x of
                               Inl e \<Rightarrow> ([], Some e)
                             | Inr x' \<Rightarrow>
                                 (let ops = int count * 3
                                  in ([Print [IntD ops, Txt '' '', IntD (int res),
                                         Txt ''-bit arithmetic operations in '', Elapsed,
                                         Txt ''s ~ '', Rate ops, Txt '' FLOPS'']], None))))))))"

primrec sqrt_loop :: "engine \<Rightarrow> nat \<Rightarrow> fxnum \<Rightarrow> fx_error option" where
  "sqrt_loop E 0 x = None"
| "sqrt_loop E (Suc n) x =
     (case fx_sqrt E x of
        Inl e \<Rightarrow> Some e
      | Inr y \<Rightarrow> sqrt_loop E n x)"

definition speedDemo_sqrt :: "engine \<Rightarrow> nat \<times> nat \<Rightarrow> run" where
  "speedDemo_sqrt E rc =
     (case rc of (res, count) \<Rightarrow>
        (case FXfamily E res (Some 4) of
           Inl e \<Rightarrow> ([], Some e)
         | Inr fam \<Rightarrow>
             (case FXnum E (IntLit 2) fam of
                Inl e \<Rightarrow> ([], Some e)
              | Inr x \<Rightarrow>
                  (case sqrt_loop E count x of
                     Some e \<Rightarrow> ([], Some e)
                   | None \<Rightarrow>
                       ([Print [IntD (int count), Txt '' '', IntD (int res),
                           Txt ''-bit square-roots in '', Elapsed,
                           Txt ''s ~ '', Rate (int count), Txt ''/ms'']], None)))))"

definition speedDemo :: "engine \<Rightarrow> run" where
  "speedDemo E =
     (case for_each (speedDemo_arith E)
             [(16, 10000), (32, 10000), (64, 10000), (128, 10000),
              (256, 10000), (512, 10000)] of
        (out1, Some e) \<Rightarrow> (Print [Txt ''=== speed test ===''] # out1, Some e)
      | (out1, None) \<Rightarrow>
          (case for_each (speedDemo_sqrt E)
                  [(4, 10000), (8, 10000), (12, 10000), (24, 10000),
                   (48, 10000), (128, 10000), (512, 10000)] of
             (out2, r) \<Rightarrow> (Print [Txt ''=== speed test ===''] # out1 @ out2, r)))"

section \<open>piPlot\<close>

text \<open>
  A loop that collects a list: \<open>Inr\<close> the values appended, \<open>Inl\<close> the exception that
  ended it.
\<close>

fun collect :: "('a \<Rightarrow> fx_error + 'b) \<Rightarrow> 'a list \<Rightarrow> fx_error + 'b list" where
  "collect f [] = Inr []"
| "collect f (a # as) =
     (case f a of
        Inl e \<Rightarrow> Inl e
      | Inr b \<Rightarrow> (case collect f as of Inl e \<Rightarrow> Inl e | Inr bs \<Rightarrow> Inr (b # bs)))"

text \<open>\<^verbatim>\<open>4 * FXnum(1, fam).atan()\<close>, with the family already built.\<close>

definition four_atan_one :: "engine \<Rightarrow> family \<Rightarrow> fx_error + fxnum" where
  "four_atan_one E fam =
     (case FXnum E (IntLit 1) fam of
        Inl e \<Rightarrow> Inl e
      | Inr one \<Rightarrow>
          (case fx_atan E one of
             Inl e \<Rightarrow> Inl e
           | Inr a \<Rightarrow> fx_rmul E a (IntLit 4)))"

definition piPlot_point :: "engine \<Rightarrow> nat \<Rightarrow> fx_error + (nat \<times> fxnum)" where
  "piPlot_point E res =
     (case FXfamily E res None of
        Inl e \<Rightarrow> Inl e
      | Inr fam \<Rightarrow>
          (case four_atan_one E fam of
             Inl e \<Rightarrow> Inl e
           | Inr val \<Rightarrow> Inr (res, val)))"

definition piPlot :: "engine \<Rightarrow> run" where
  "piPlot E =
     (let b_min = 8; b_max = 25
      in case FXfamily E (b_max + 40) None of
           Inl e \<Rightarrow> ([], Some e)
         | Inr fam_true \<Rightarrow>
             (case fx_constant E Pi fam_true of
                Inl e \<Rightarrow> ([], Some e)
              | Inr pi_true \<Rightarrow>
                  (case collect (piPlot_point E) [b_min ..< b_max + 1] of
                     Inl e \<Rightarrow> ([], Some e)
                   | Inr pipoints \<Rightarrow> ([PlotPi pi_true pipoints], None))))"

section \<open>piAccuracyPlot\<close>

definition lostbits :: "engine \<Rightarrow> fxnum \<Rightarrow> fxnum \<Rightarrow> fx_error + fxnum" where
  "lostbits E x x_acc =
     (let fam_acc = family x_acc
      in case FXnum E (Num x) fam_acc of
           Inl e \<Rightarrow> Inl e
         | Inr x_up \<Rightarrow>
             (case fx_sub E x_up (Num x_acc) of
                Inl e \<Rightarrow> Inl e
              | Inr eps \<Rightarrow>
                  (case fx_abs E eps of
                     Inl e \<Rightarrow> Inl e
                   | Inr a \<Rightarrow>
                       (case fx_log E a of
                          Inl e \<Rightarrow> Inl e
                        | Inr l \<Rightarrow>
                            (case fx_constant E Log2 fam_acc of
                               Inl e \<Rightarrow> Inl e
                             | Inr l2 \<Rightarrow>
                                 (case fx_div E l (Num l2) of
                                    Inl e \<Rightarrow> Inl e
                                  | Inr q \<Rightarrow>
                                      fx_add E q (IntLit (int (resolution (family x))))))))))"

definition piAccuracyPlot_point :: "engine \<Rightarrow> nat \<Rightarrow> fx_error + (nat \<times> fxnum \<times> fxnum)" where
  "piAccuracyPlot_point E bits =
     (case FXfamily E (bits + 40) None of
        Inl e \<Rightarrow> Inl e
      | Inr fam_acc \<Rightarrow>
          (case FXfamily E bits None of
             Inl e \<Rightarrow> Inl e
           | Inr fam \<Rightarrow>
               (case fx_constant E Pi fam_acc of
                  Inl e \<Rightarrow> Inl e
                | Inr pi_true \<Rightarrow>
                    (case fx_constant E Pi fam of
                       Inl e \<Rightarrow> Inl e
                     | Inr pi_family \<Rightarrow>
                         (case four_atan_one E fam of
                            Inl e \<Rightarrow> Inl e
                          | Inr atan \<Rightarrow>
                              (case lostbits E atan pi_true of
                                 Inl e \<Rightarrow> Inl e
                               | Inr l1 \<Rightarrow>
                                   (case lostbits E pi_family pi_true of
                                      Inl e \<Rightarrow> Inl e
                                    | Inr l2 \<Rightarrow> Inr (bits, l1, l2))))))))"

definition piAccuracyPlot :: "engine \<Rightarrow> run" where
  "piAccuracyPlot E =
     (case collect (piAccuracyPlot_point E) (map (\<lambda>k. 4 * k) [1 ..< 125]) of
        Inl e \<Rightarrow> ([], Some e)
      | Inr losses \<Rightarrow> ([PlotLosses losses], None))"

section \<open>main\<close>

text \<open>
  The three imports of the \<^verbatim>\<open>try\<close> block at the head of the file; an import that
  cannot be done raises \<^verbatim>\<open>ImportError\<close>, which the block catches.
\<close>

record import_env =
  import_matplotlib :: bool
  import_numpy :: bool
  import_pyplot :: bool

definition HAVE_MATPLOTLIB :: "import_env \<Rightarrow> bool" where
  "HAVE_MATPLOTLIB env =
     (if import_matplotlib env \<and> import_numpy env \<and> import_pyplot env then True else False)"

text \<open>What \<^verbatim>\<open>parse_args\<close> hands back: the flag \<^verbatim>\<open>--all\<close> and the positional names.\<close>

record args =
  args_all :: bool
  args_demos :: "string list"

text \<open>The ordered dictionary of demos: keys in the order of insertion.\<close>

definition demos :: "engine \<Rightarrow> import_env \<Rightarrow> (string \<times> run option) list" where
  "demos E env =
     [(''basic'', Some (basicDemo E)),
      (''overflow'', overflowDemo E),
      (''speed'', Some (speedDemo E))]
     @ (if HAVE_MATPLOTLIB env
        then [(''piplot'', Some (piPlot E)), (''piaccplot'', Some (piAccuracyPlot E))]
        else [])"

text \<open>
  \<^verbatim>\<open>demos[demoname]()\<close>: a name that is no key raises \<^verbatim>\<open>KeyError\<close>; the call runs
  the demo, and an exception of the demo leaves \<^verbatim>\<open>main\<close>.
\<close>

definition call_demo :: "(string \<times> run option) list \<Rightarrow> string \<Rightarrow> run option" where
  "call_demo ds demoname =
     (case map_of ds demoname of
        None \<Rightarrow> Some ([], Some KeyError)
      | Some r \<Rightarrow> r)"

definition main :: "engine \<Rightarrow> import_env \<Rightarrow> args \<Rightarrow> run option" where
  "main E env a =
     (let ds = demos E env;
          names = (if args_all a \<or> args_demos a = [] then map fst ds else args_demos a)
      in for_each_opt (call_demo ds) names)"

section \<open>The engine of the specification\<close>

text \<open>
  The module \<^verbatim>\<open>FixedPoint\<close> is modelled from the specification's sections 3, 4, 6
  and 7. What the specification leaves open is a parameter: the default number of integer
  bits, the number of guard bits, and the value each solver computes before the range
  check. A solver sees the resolution and the scaled value only: the integer width of a
  Family bounds magnitudes, and it enters through the range check alone.
\<close>

record numerics =
  defaultIntegerBits :: nat
  guardBits :: nat
  sqrtRaw :: "nat \<Rightarrow> int \<Rightarrow> int"
  expRaw :: "nat \<Rightarrow> int \<Rightarrow> int"
  logRaw :: "nat \<Rightarrow> int \<Rightarrow> int"
  atanRaw :: "nat \<Rightarrow> int \<Rightarrow> int"
  constRaw :: "cname \<Rightarrow> nat \<Rightarrow> int"

text \<open>
  Modelled from the spec: the invariant of a Number (section 3),
  \<^verbatim>\<open>|scaledValue| < 2^(resolution + integerBits - 1)\<close>.
\<close>

definition in_range :: "family \<Rightarrow> int \<Rightarrow> bool" where
  "in_range F v = (\<bar>v\<bar> < 2 ^ (resolution F + integerBits F - 1))"

definition valid :: "fxnum \<Rightarrow> bool" where
  "valid a = in_range (family a) (scaledValue a)"

text \<open>
  Modelled from the spec: the Overflow Guard (sections 2 and 4.1), which fails with
  Overflow on a value out of range and never wraps or saturates.
\<close>

definition validate :: "family \<Rightarrow> int \<Rightarrow> fx_error + fxnum" where
  "validate F v =
     (if in_range F v then Inr \<lparr>scaledValue = v, family = F\<rparr> else Inl FXoverflowError)"

text \<open>
  Modelled from the spec: the constructor of a Family (section 6), given a resolution and
  optionally the integer bits.
\<close>

definition spec_FXfamily :: "numerics \<Rightarrow> nat \<Rightarrow> nat option \<Rightarrow> fx_error + family" where
  "spec_FXfamily N res ib =
     Inr \<lparr>resolution = res,
          integerBits = (case ib of None \<Rightarrow> defaultIntegerBits N | Some n \<Rightarrow> n)\<rparr>"

text \<open>
  Modelled from the spec: the constructor of a Number (sections 3 and 6), from a literal
  scaled into the Family's representation, or from a Number of any Family, rebuilt at the
  resolution of the Family given. A literal's fraction is rounded down.
\<close>

definition spec_FXnum :: "operand \<Rightarrow> family \<Rightarrow> fx_error + fxnum" where
  "spec_FXnum v F =
     (case v of
        IntLit i \<Rightarrow> validate F (i * 2 ^ resolution F)
      | FloatLit n d \<Rightarrow> validate F ((n * 2 ^ resolution F) div d)
      | Num a \<Rightarrow> validate F ((scaledValue a * 2 ^ resolution F) div 2 ^ resolution (family a)))"

text \<open>
  Modelled from the spec: the second operand of a binary operation (sections 3 and 7): a
  Number of the same Family, or a literal promoted into the Family of the first; a Number
  of another Family is a FamilyMismatch.
\<close>

definition promote :: "fxnum \<Rightarrow> operand \<Rightarrow> fx_error + fxnum" where
  "promote a b =
     (case b of
        Num y \<Rightarrow> (if family y = family a then Inr y else Inl FamilyMismatch)
      | IntLit i \<Rightarrow> spec_FXnum (IntLit i) (family a)
      | FloatLit n d \<Rightarrow> spec_FXnum (FloatLit n d) (family a))"

text \<open>
  Modelled from the spec: the arithmetic of section 4.1. Addition and subtraction are
  exact and checked after the operation; a product is computed at full width and shifted
  right by the resolution, rounding to nearest; a quotient has its dividend shifted left
  by the resolution and is rounded to nearest, and fails on a zero divisor.
\<close>

definition round_div :: "int \<Rightarrow> int \<Rightarrow> int" where
  "round_div a b = (2 * a + b) div (2 * b)"

definition spec_add :: "fxnum \<Rightarrow> operand \<Rightarrow> fx_error + fxnum" where
  "spec_add a b =
     (case promote a b of
        Inl e \<Rightarrow> Inl e
      | Inr y \<Rightarrow> validate (family a) (scaledValue a + scaledValue y))"

definition spec_sub :: "fxnum \<Rightarrow> operand \<Rightarrow> fx_error + fxnum" where
  "spec_sub a b =
     (case promote a b of
        Inl e \<Rightarrow> Inl e
      | Inr y \<Rightarrow> validate (family a) (scaledValue a - scaledValue y))"

definition spec_mul :: "fxnum \<Rightarrow> operand \<Rightarrow> fx_error + fxnum" where
  "spec_mul a b =
     (case promote a b of
        Inl e \<Rightarrow> Inl e
      | Inr y \<Rightarrow>
          validate (family a)
            (round_div (scaledValue a * scaledValue y) (2 ^ resolution (family a))))"

definition spec_div :: "fxnum \<Rightarrow> operand \<Rightarrow> fx_error + fxnum" where
  "spec_div a b =
     (case promote a b of
        Inl e \<Rightarrow> Inl e
      | Inr y \<Rightarrow>
          (if scaledValue y = 0 then Inl DivisionByZero
           else validate (family a)
                  (round_div (scaledValue a * 2 ^ resolution (family a)) (scaledValue y))))"

text \<open>
  Modelled from the spec: absolute value by sign inspection (section 4.3), and the
  transcendental entry points: each returns a Number of the same Family, the square root
  fails with DomainError on a negative input, the logarithm on a non-positive one, and the
  result of a solver passes the range check (the single overflow exit of section 4.3).
\<close>

definition spec_abs :: "fxnum \<Rightarrow> fx_error + fxnum" where
  "spec_abs a = Inr (a\<lparr>scaledValue := \<bar>scaledValue a\<bar>\<rparr>)"

definition spec_sqrt :: "numerics \<Rightarrow> fxnum \<Rightarrow> fx_error + fxnum" where
  "spec_sqrt N a =
     (if scaledValue a < 0 then Inl DomainError
      else validate (family a) (sqrtRaw N (resolution (family a)) (scaledValue a)))"

definition spec_exp :: "numerics \<Rightarrow> fxnum \<Rightarrow> fx_error + fxnum" where
  "spec_exp N a = validate (family a) (expRaw N (resolution (family a)) (scaledValue a))"

definition spec_log :: "numerics \<Rightarrow> fxnum \<Rightarrow> fx_error + fxnum" where
  "spec_log N a =
     (if scaledValue a \<le> 0 then Inl DomainError
      else validate (family a) (logRaw N (resolution (family a)) (scaledValue a)))"

definition spec_atan :: "numerics \<Rightarrow> fxnum \<Rightarrow> fx_error + fxnum" where
  "spec_atan N a = validate (family a) (atanRaw N (resolution (family a)) (scaledValue a))"

text \<open>
  Modelled from the spec: the value of a family constant (section 4.2), computed at
  \<^verbatim>\<open>resolution + guardBits\<close> and rounded down to the resolution.
\<close>

definition compute_constant :: "numerics \<Rightarrow> cname \<Rightarrow> family \<Rightarrow> fx_error + fxnum" where
  "compute_constant N c F =
     validate F (constRaw N c (resolution F + guardBits N) div 2 ^ guardBits N)"

definition spec_engine :: "numerics \<Rightarrow> engine" where
  "spec_engine N =
     \<lparr>FXfamily = spec_FXfamily N,
      FXnum = spec_FXnum,
      fx_sqrt = spec_sqrt N,
      fx_exp = spec_exp N,
      fx_log = spec_log N,
      fx_atan = spec_atan N,
      fx_abs = spec_abs,
      fx_add = spec_add,
      fx_sub = spec_sub,
      fx_mul = spec_mul,
      fx_rmul = spec_mul,
      fx_div = spec_div,
      fx_constant = compute_constant N\<rparr>"

subsection \<open>The Family as an object with its cache\<close>

text \<open>
  Modelled from the spec: the Family of section 3 with its \<^verbatim>\<open>constantsCache\<close>, and
  \<^verbatim>\<open>constant(name)\<close> of section 4.2. The field \<open>solverCalls\<close> is the call-count
  instrumentation of section 8: it counts the computations of a constant.
\<close>

record family_obj = family +
  constantsCache :: "cname \<Rightarrow> fxnum option"
  solverCalls :: nat

definition new_family :: "family \<Rightarrow> family_obj" where
  "new_family F = family.extend F \<lparr>constantsCache = (\<lambda>c. None), solverCalls = 0\<rparr>"

definition cached_constant :: "numerics \<Rightarrow> cname \<Rightarrow> family_obj \<Rightarrow> (fx_error + fxnum) \<times> family_obj" where
  "cached_constant N c Fo =
     (case constantsCache Fo c of
        Some v \<Rightarrow> (Inr v, Fo)
      | None \<Rightarrow>
          (case compute_constant N c (family.truncate Fo) of
             Inl e \<Rightarrow> (Inl e, Fo\<lparr>solverCalls := solverCalls Fo + 1\<rparr>)
           | Inr v \<Rightarrow>
               (Inr v, Fo\<lparr>constantsCache := (constantsCache Fo)(c := Some v),
                            solverCalls := solverCalls Fo + 1\<rparr>)))"

section \<open>Reference numerics\<close>

text \<open>
  One set of solvers, written after section 4.3 of the specification, to run the engine on
  concrete inputs. All work on scaled integers of unbounded width. A series stops when its
  next term is below one unit in the last place, that is, zero; the second test of each
  loop stops a series whose terms do not shrink, which a reduced argument never meets.
\<close>

text \<open>Division rounding towards zero.\<close>

definition quot :: "int \<Rightarrow> int \<Rightarrow> int" where
  "quot a b = sgn a * sgn b * (\<bar>a\<bar> div \<bar>b\<bar>)"

function bit_length :: "int \<Rightarrow> nat" where
  "bit_length n = (if n \<le> 0 then 0 else Suc (bit_length (n div 2)))"
  by pat_completeness auto
termination
  by (relation "measure nat") auto

declare bit_length.simps [simp del]

text \<open>
  Modelled from the spec: the square root by Newton-Raphson,
  \<^verbatim>\<open>x' = (x + v/x)/2\<close>, seeded from the bit length of the operand. The iteration
  ends at the integer part \<open>t\<close> of the root of the scaled operand \<open>n\<close>; the result is
  the nearer of \<open>t\<close> and \<open>t + 1\<close>, the latter when \<open>n\<close> exceeds \<open>t^2 + t\<close>.
\<close>

function newton_sqrt :: "int \<Rightarrow> int \<Rightarrow> int" where
  "newton_sqrt v x =
     (if x \<le> 0 then 0
      else let y = (x + v div x) div 2 in if y < x then newton_sqrt v y else x)"
  by pat_completeness auto
termination
  by (relation "measure (\<lambda>(v, x). nat x)") auto

declare newton_sqrt.simps [simp del]

definition ref_sqrt :: "nat \<Rightarrow> int \<Rightarrow> int" where
  "ref_sqrt r v =
     (let n = v * 2 ^ r;
          t = newton_sqrt n (2 ^ ((bit_length n + 1) div 2))
      in if t < n - t * t then t + 1 else t)"

text \<open>
  Modelled from the spec: the exponential. The argument is halved until it lies in
  \<open>[-1/2, 1/2]\<close>, the Taylor series is summed there, and the sum is squared once for
  each halving, by \<^verbatim>\<open>exp(x) = exp(x/2)^2\<close>.
\<close>

function halvings :: "nat \<Rightarrow> int \<Rightarrow> nat" where
  "halvings r x = (if 2 * \<bar>x\<bar> \<le> 2 ^ r then 0 else Suc (halvings r (quot x 2)))"
  by pat_completeness auto
termination
  by (relation "measure (\<lambda>(r, x). nat \<bar>x\<bar>)") (auto simp: quot_def abs_mult sgn_if)

declare halvings.simps [simp del]

function exp_series :: "nat \<Rightarrow> int \<Rightarrow> int \<Rightarrow> int \<Rightarrow> int \<Rightarrow> int" where
  "exp_series r y n t acc =
     (let t' = quot (t * y) (2 ^ r * n)
      in if t' = 0 \<or> \<bar>t\<bar> \<le> \<bar>t'\<bar> then acc else exp_series r y (n + 1) t' (acc + t'))"
  by pat_completeness auto
termination
  by (relation "measure (\<lambda>(r, y, n, t, acc). nat \<bar>t\<bar>)") (auto simp: Let_def)

declare exp_series.simps [simp del]

primrec squarings :: "nat \<Rightarrow> nat \<Rightarrow> int \<Rightarrow> int" where
  "squarings r 0 v = v"
| "squarings r (Suc k) v = squarings r k (round_div (v * v) (2 ^ r))"

definition ref_exp :: "nat \<Rightarrow> int \<Rightarrow> int" where
  "ref_exp r x =
     (let k = halvings r x;
          y = quot x (2 ^ k)
      in squarings r k (exp_series r y 1 (2 ^ r) (2 ^ r)))"

text \<open>
  The series \<open>x \<plusminus> x^3/3 + x^5/5 \<plusminus> ...\<close> of the arctangent (\<open>sg = -1\<close>) and of the
  inverse hyperbolic tangent (\<open>sg = 1\<close>); \<open>pw\<close> is the current odd power with its sign and
  \<open>n\<close> its exponent.
\<close>

function odd_series :: "nat \<Rightarrow> int \<Rightarrow> int \<Rightarrow> int \<Rightarrow> int \<Rightarrow> int \<Rightarrow> int" where
  "odd_series r sg x2 n pw acc =
     (let pw' = sg * quot (pw * x2) (2 ^ r)
      in if pw' = 0 \<or> \<bar>pw\<bar> \<le> \<bar>pw'\<bar> then acc
         else odd_series r sg x2 (n + 2) pw' (acc + quot pw' (n + 2)))"
  by pat_completeness auto
termination
  by (relation "measure (\<lambda>(r, sg, x2, n, pw, acc). nat \<bar>pw\<bar>)") (auto simp: Let_def)

declare odd_series.simps [simp del]

text \<open>
  Modelled from the spec: the constants. \<open>e\<close> by its direct series, \<open>ln 2\<close> by the
  series of \<open>1/(k 2^k)\<close>, \<open>\<pi>\<close> by Machin's sum of arctangents
  \<open>4 (4 atan (1/5) - atan (1/239))\<close>; \<open>p\<close> is the number of fractional bits.
\<close>

function e_series :: "int \<Rightarrow> int \<Rightarrow> int \<Rightarrow> int" where
  "e_series k t acc =
     (let t' = t div k
      in if t' \<le> 0 \<or> t \<le> t' then acc else e_series (k + 1) t' (acc + t'))"
  by pat_completeness auto
termination
  by (relation "measure (\<lambda>(k, t, acc). nat t)") (auto simp: Let_def)

declare e_series.simps [simp del]

function ln2_series :: "int \<Rightarrow> int \<Rightarrow> int \<Rightarrow> int" where
  "ln2_series k pw acc =
     (let pw' = pw div 2
      in if pw' \<le> 0 \<or> pw \<le> pw' then acc else ln2_series (k + 1) pw' (acc + pw' div k))"
  by pat_completeness auto
termination
  by (relation "measure (\<lambda>(k, pw, acc). nat pw)") (auto simp: Let_def)

declare ln2_series.simps [simp del]

definition atan_inv :: "nat \<Rightarrow> int \<Rightarrow> int" where
  "atan_inv p n =
     (let x = 2 ^ p div n
      in odd_series p (- 1) (2 ^ p div (n * n)) 1 x x)"

definition ref_const :: "cname \<Rightarrow> nat \<Rightarrow> int" where
  "ref_const c p =
     (case c of
        Pi \<Rightarrow> 4 * (4 * atan_inv p 5 - atan_inv p 239)
      | Exp1 \<Rightarrow> e_series 2 (2 ^ p) (2 * 2 ^ p)
      | Log2 \<Rightarrow> ln2_series 1 (2 ^ p) 0)"

text \<open>
  Modelled from the spec: the natural logarithm. Powers of two are divided out, bringing
  the argument \<open>m\<close> into \<open>[1, 2)\<close>; then \<open>ln m = 2 atanh ((m - 1) / (m + 1))\<close>, and
  the powers of two come back as multiples of \<open>ln 2\<close>.
\<close>

definition ref_log :: "nat \<Rightarrow> int \<Rightarrow> int" where
  "ref_log r x =
     (let k = int (bit_length x) - 1 - int r;
          m = (if 0 \<le> k then x div 2 ^ nat k else x * 2 ^ nat (- k));
          z = round_div ((m - 2 ^ r) * 2 ^ r) (m + 2 ^ r)
      in k * (ref_const Log2 (r + 8) div 2 ^ 8) + 2 * odd_series r 1 (round_div (z * z) (2 ^ r)) 1 z z)"

text \<open>
  Modelled from the spec: the arctangent. An argument beyond \<open>1/2\<close> in magnitude is
  reduced by the half-angle identity \<open>atan x = 2 atan (x / (1 + sqrt (1 + x^2)))\<close>;
  the series is summed on the reduced argument.
\<close>

function atan_reduce :: "nat \<Rightarrow> int \<Rightarrow> int \<times> nat" where
  "atan_reduce r x =
     (if 2 * \<bar>x\<bar> \<le> 2 ^ r then (x, 0)
      else let x' = round_div (x * 2 ^ r)
                      (2 ^ r + ref_sqrt r (2 ^ r + round_div (x * x) (2 ^ r)))
           in if \<bar>x'\<bar> < \<bar>x\<bar>
              then (case atan_reduce r x' of (y, k) \<Rightarrow> (y, Suc k))
              else (x, 0))"
  by pat_completeness auto
termination
  by (relation "measure (\<lambda>(r, x). nat \<bar>x\<bar>)") (auto simp: Let_def)

declare atan_reduce.simps [simp del]

definition ref_atan :: "nat \<Rightarrow> int \<Rightarrow> int" where
  "ref_atan r x =
     (case atan_reduce r x of
        (y, k) \<Rightarrow> 2 ^ k * odd_series r (- 1) (round_div (y * y) (2 ^ r)) 1 y y)"

definition ref_numerics :: numerics where
  "ref_numerics =
     \<lparr>defaultIntegerBits = 32,
      guardBits = 8,
      sqrtRaw = ref_sqrt,
      expRaw = ref_exp,
      logRaw = ref_log,
      atanRaw = ref_atan,
      constRaw = ref_const\<rparr>"

definition ref_engine :: engine where
  "ref_engine = spec_engine ref_numerics"

section \<open>Rounds of the overflow loop\<close>

text \<open>
  The loop cut off after \<open>n\<close> rounds: \<open>None\<close> says that \<open>n\<close> rounds did not end it.
  It serves to reason about the loop and to run it.
\<close>

primrec whileLoop_upto :: "nat \<Rightarrow> engine \<Rightarrow> operand \<Rightarrow> fxnum \<Rightarrow> (fx_error + fxnum) option" where
  "whileLoop_upto 0 E step x = None"
| "whileLoop_upto (Suc n) E step x =
     (case fx_exp E x of
        Inl e \<Rightarrow> (if e = FXoverflowError then Some (Inr x) else Some (Inl e))
      | Inr ex \<Rightarrow>
          (case fx_add E x step of
             Inl e \<Rightarrow> Some (Inl e)
           | Inr x' \<Rightarrow> whileLoop_upto n E step x'))"

text \<open>The input of round \<open>n\<close>: the start value after \<open>n\<close> executions of \<^verbatim>\<open>x += step\<close>.\<close>

primrec nth_input :: "engine \<Rightarrow> operand \<Rightarrow> fxnum \<Rightarrow> nat \<Rightarrow> fx_error + fxnum" where
  "nth_input E step x 0 = Inr x"
| "nth_input E step x (Suc n) =
     (case nth_input E step x n of
        Inl e \<Rightarrow> Inl e
      | Inr y \<Rightarrow> fx_add E y step)"

text \<open>
  The input of round \<open>k\<close> of the overflow demo at integer width \<open>w\<close>: \<open>k\<close> steps of
  \<^verbatim>\<open>0.1\<close>, each scaled into the Family as the constructor of a Number scales a
  literal, up from \<^verbatim>\<open>0.0\<close>.
\<close>

definition demo_input :: "nat \<Rightarrow> nat \<Rightarrow> nat \<Rightarrow> fxnum" where
  "demo_input res w k =
     \<lparr>scaledValue = int k * ((1 * 2 ^ res) div 10),
      family = \<lparr>resolution = res, integerBits = w\<rparr>\<rparr>"

text \<open>
  An engine whose \<^verbatim>\<open>exp\<close> raises an error that is not an overflow, on the Numbers of 8
  integer bits from \<open>1.0\<close> upwards; everything else is the reference engine. It exercises
  the path of the harness for the other error kinds.
\<close>

definition exp_raising_engine :: engine where
  "exp_raising_engine =
     ref_engine\<lparr>fx_exp :=
       (\<lambda>x. if integerBits (family x) = 8 \<and> 2 ^ 20 \<le> scaledValue x
            then Inl DomainError else fx_exp ref_engine x)\<rparr>"

section \<open>Properties of the engine of the specification\<close>

lemma validate_Inr_iff:
  "validate F v = Inr y \<longleftrightarrow> in_range F v \<and> y = \<lparr>scaledValue = v, family = F\<rparr>"
  by (auto simp: validate_def)

lemma validate_Inl_iff:
  "validate F v = Inl e \<longleftrightarrow> \<not> in_range F v \<and> e = FXoverflowError"
  by (auto simp: validate_def)

text \<open>
  Claim C3. For Numbers \<open>a\<close> and \<open>b\<close> of one Family, when the sum \<open>a + b\<close> stays in
  range, subtracting \<open>b\<close> from it succeeds and gives back \<open>a\<close> exactly: the scaled
  value and the Family are those of \<open>a\<close>.
\<close>

theorem add_then_sub_exact:
  assumes "valid a" and "fx_add (spec_engine N) a (Num b) = Inr c"
  shows "fx_sub (spec_engine N) c (Num b) = Inr a"
proof -
  from assms(2) have add: "spec_add a (Num b) = Inr c"
    by (simp add: spec_engine_def)
  then have fam: "family b = family a"
    by (auto simp: spec_add_def promote_def split: if_splits sum.splits)
  with add have c: "c = \<lparr>scaledValue = scaledValue a + scaledValue b, family = family a\<rparr>"
    by (simp add: spec_add_def promote_def validate_Inr_iff)
  from assms(1) have "in_range (family a) (scaledValue a)"
    by (simp add: valid_def)
  with fam c have "spec_sub c (Num b) = Inr a"
    by (simp add: spec_sub_def promote_def validate_def)
  then show ?thesis
    by (simp add: spec_engine_def)
qed

theorem add_then_sub_exact_witness:
  "valid \<lparr>scaledValue = 384, family = \<lparr>resolution = 8, integerBits = 4\<rparr>\<rparr> \<and>
   fx_add (spec_engine ref_numerics)
     \<lparr>scaledValue = 384, family = \<lparr>resolution = 8, integerBits = 4\<rparr>\<rparr>
     (Num \<lparr>scaledValue = 576, family = \<lparr>resolution = 8, integerBits = 4\<rparr>\<rparr>)
     = Inr \<lparr>scaledValue = 960, family = \<lparr>resolution = 8, integerBits = 4\<rparr>\<rparr> \<and>
   fx_sub (spec_engine ref_numerics)
     \<lparr>scaledValue = 960, family = \<lparr>resolution = 8, integerBits = 4\<rparr>\<rparr>
     (Num \<lparr>scaledValue = 576, family = \<lparr>resolution = 8, integerBits = 4\<rparr>\<rparr>)
     = Inr \<lparr>scaledValue = 384, family = \<lparr>resolution = 8, integerBits = 4\<rparr>\<rparr>"
proof -
  have h1: "valid \<lparr>scaledValue = 384, family = \<lparr>resolution = 8, integerBits = 4\<rparr>\<rparr>"
    by (simp add: valid_def in_range_def)
  have h2: "fx_add (spec_engine ref_numerics)
     \<lparr>scaledValue = 384, family = \<lparr>resolution = 8, integerBits = 4\<rparr>\<rparr>
     (Num \<lparr>scaledValue = 576, family = \<lparr>resolution = 8, integerBits = 4\<rparr>\<rparr>)
     = Inr \<lparr>scaledValue = 960, family = \<lparr>resolution = 8, integerBits = 4\<rparr>\<rparr>"
    by (simp add: spec_engine_def spec_add_def promote_def validate_def in_range_def)
  from add_then_sub_exact [OF h1 h2] h1 h2 show ?thesis by simp
qed

text \<open>
  The constant the harness reads off a Family is what the first request on a Family with
  an empty cache returns.
\<close>

lemma fresh_constant:
  "fst (cached_constant N c (new_family F)) = fx_constant (spec_engine N) c F"
  by (cases F)
     (simp add: cached_constant_def new_family_def spec_engine_def family.defs
           split: sum.splits)

text \<open>
  Claim C2. When a request for a family constant (\<open>pi\<close>, \<open>exp1\<close> or \<open>log2\<close>) on a
  Family returns a Number, the next request for it on the same Family returns the same
  Number, leaves the Family as it is, the count of computations included, and the Number
  is the entry of the cache.
\<close>

theorem constant_cached_once:
  assumes "cached_constant N c Fo = (Inr v, Fo1)"
  shows "cached_constant N c Fo1 = (Inr v, Fo1) \<and>
         constantsCache Fo1 c = Some v \<and>
         solverCalls (snd (cached_constant N c Fo1)) = solverCalls Fo1"
proof -
  from assms have "constantsCache Fo1 c = Some v"
    by (auto simp: cached_constant_def split: option.splits sum.splits)
  then show ?thesis
    by (simp add: cached_constant_def)
qed

theorem constant_cached_once_witness:
  "cached_constant ref_numerics Exp1 (new_family \<lparr>resolution = 8, integerBits = 4\<rparr>)
     = (Inr \<lparr>scaledValue = 695, family = \<lparr>resolution = 8, integerBits = 4\<rparr>\<rparr>,
        snd (cached_constant ref_numerics Exp1
               (new_family \<lparr>resolution = 8, integerBits = 4\<rparr>))) \<and>
   cached_constant ref_numerics Exp1
      (snd (cached_constant ref_numerics Exp1
              (new_family \<lparr>resolution = 8, integerBits = 4\<rparr>)))
     = (Inr \<lparr>scaledValue = 695, family = \<lparr>resolution = 8, integerBits = 4\<rparr>\<rparr>,
        snd (cached_constant ref_numerics Exp1
               (new_family \<lparr>resolution = 8, integerBits = 4\<rparr>))) \<and>
   solverCalls (snd (cached_constant ref_numerics Exp1
                       (new_family \<lparr>resolution = 8, integerBits = 4\<rparr>))) = 1"
proof -
  have v: "compute_constant ref_numerics Exp1 \<lparr>resolution = 8, integerBits = 4\<rparr>
             = Inr \<lparr>scaledValue = 695, family = \<lparr>resolution = 8, integerBits = 4\<rparr>\<rparr>"
    by code_simp
  have h: "cached_constant ref_numerics Exp1 (new_family \<lparr>resolution = 8, integerBits = 4\<rparr>)
     = (Inr \<lparr>scaledValue = 695, family = \<lparr>resolution = 8, integerBits = 4\<rparr>\<rparr>,
        snd (cached_constant ref_numerics Exp1
               (new_family \<lparr>resolution = 8, integerBits = 4\<rparr>)))"
    by (simp add: cached_constant_def new_family_def family.defs v)
  have n: "solverCalls (snd (cached_constant ref_numerics Exp1
                               (new_family \<lparr>resolution = 8, integerBits = 4\<rparr>))) = 1"
    by (simp add: cached_constant_def new_family_def family.defs v)
  from constant_cached_once [OF h] h n show ?thesis by simp
qed

text \<open>
  Claim C8. The constructor of a Family succeeds on a resolution alone, the integer bits
  then being the default, and on a resolution with integer bits; the Family has the
  resolution asked for, and a Number can be built under it, as \<^verbatim>\<open>basicDemo\<close> and
  \<^verbatim>\<open>overflowDemo\<close> go on to do.
\<close>

theorem FXfamily_both_forms:
  "(\<exists>F. FXfamily (spec_engine N) res None = Inr F \<and>
        resolution F = res \<and> integerBits F = defaultIntegerBits N \<and>
        FXnum (spec_engine N) (IntLit 0) F = Inr \<lparr>scaledValue = 0, family = F\<rparr>) \<and>
   (\<exists>F. FXfamily (spec_engine N) res (Some ib) = Inr F \<and>
        resolution F = res \<and> integerBits F = ib \<and>
        FXnum (spec_engine N) (FloatLit 0 10) F = Inr \<lparr>scaledValue = 0, family = F\<rparr>)"
  by (simp add: spec_engine_def spec_FXfamily_def spec_FXnum_def validate_def in_range_def)

section \<open>The overflow loop\<close>

lemma whileLoop_upto_sound:
  "whileLoop_upto n E step x = Some r \<Longrightarrow> whileLoop E step x = Some r"
proof (induction n arbitrary: x)
  case 0
  then show ?case by simp
next
  case (Suc n)
  show ?case
  proof (cases "fx_exp E x")
    case (Inl e)
    with Suc.prems show ?thesis
      by (subst whileLoop.simps) (simp split: if_splits)
  next
    case (Inr ex)
    note ex = this
    show ?thesis
    proof (cases "fx_add E x step")
      case (Inl e)
      with ex Suc.prems have "r = Inl e" by simp
      with ex Inl show ?thesis
        by (subst whileLoop.simps) simp
    next
      case (Inr x')
      with ex Suc.prems have "whileLoop_upto n E step x' = Some r" by simp
      then have "whileLoop E step x' = Some r" by (rule Suc.IH)
      with ex Inr show ?thesis
        by (subst whileLoop.simps) simp
    qed
  qed
qed

lemma whileLoop_rounds_induct [consumes 1, case_names round]:
  assumes run: "whileLoop E step x = Some r"
    and round: "\<And>f E step x r.
      (\<And>E step x r. f E step x = Some r \<Longrightarrow> P E step x r) \<Longrightarrow>
      (case fx_exp E x of
         Inl e \<Rightarrow> if e = FXoverflowError then Some (Inr x) else Some (Inl e)
       | Inr ex \<Rightarrow>
           (case fx_add E x step of
              Inl e \<Rightarrow> Some (Inl e)
            | Inr x' \<Rightarrow> f E step x')) = Some r \<Longrightarrow>
      P E step x r"
  shows "P E step x r"
  by (rule whileLoop.raw_induct[where xa="((E, step), x)" and P=P, simplified, OF round run])

lemma whileLoop_complete:
  assumes "whileLoop E step x = Some r"
  shows "\<exists>n. whileLoop_upto n E step x = Some r"
  using assms
proof (induction rule: whileLoop_rounds_induct)
  case (round f E step x r)
  show ?case
  proof (cases "fx_exp E x")
    case (Inl e)
    with round(2) have "whileLoop_upto (Suc 0) E step x = Some r"
      by (simp split: if_splits)
    then show ?thesis by blast
  next
    case (Inr ex)
    note ex = this
    show ?thesis
    proof (cases "fx_add E x step")
      case (Inl e)
      with ex round(2) have "r = Inl e" by simp
      with ex Inl have "whileLoop_upto (Suc 0) E step x = Some r" by simp
      then show ?thesis by blast
    next
      case (Inr x')
      with ex round(2) have "f E step x' = Some r" by simp
      then obtain n where "whileLoop_upto n E step x' = Some r"
        using round(1) by blast
      with ex Inr have "whileLoop_upto (Suc n) E step x = Some r" by simp
      then show ?thesis by blast
    qed
  qed
qed

lemma whileLoop_eq_Some_iff:
  "whileLoop E step x = Some r \<longleftrightarrow> (\<exists>n. whileLoop_upto n E step x = Some r)"
  using whileLoop_upto_sound whileLoop_complete by blast

lemma whileLoop_eq_None_iff:
  "whileLoop E step x = None \<longleftrightarrow> (\<forall>n. whileLoop_upto n E step x = None)"
proof
  assume none: "whileLoop E step x = None"
  show "\<forall>n. whileLoop_upto n E step x = None"
  proof
    fix n
    show "whileLoop_upto n E step x = None"
    proof (cases "whileLoop_upto n E step x")
      case None
      then show ?thesis .
    next
      case (Some r)
      then have "whileLoop E step x = Some r" by (rule whileLoop_upto_sound)
      with none show ?thesis by simp
    qed
  qed
next
  assume all: "\<forall>n. whileLoop_upto n E step x = None"
  show "whileLoop E step x = None"
  proof (cases "whileLoop E step x")
    case None
    then show ?thesis .
  next
    case (Some r)
    then obtain n where "whileLoop_upto n E step x = Some r"
      using whileLoop_complete by blast
    with all show ?thesis by simp
  qed
qed

lemma nth_input_shift:
  "fx_add E x step = Inr x' \<Longrightarrow> nth_input E step x (Suc n) = nth_input E step x' n"
  by (induction n) simp_all

lemma nth_input_add_fails:
  "fx_add E x step = Inl e \<Longrightarrow> nth_input E step x (Suc n) = Inl e"
  by (induction n) simp_all

lemma whileLoop_upto_break_iff:
  "whileLoop_upto m E step x = Some (Inr y) \<longleftrightarrow>
   (\<exists>n<m. nth_input E step x n = Inr y \<and> fx_exp E y = Inl FXoverflowError \<and>
      (\<forall>k<n. \<exists>z v. nth_input E step x k = Inr z \<and> fx_exp E z = Inr v))"
  (is "?L m x \<longleftrightarrow> ?R m x")
proof (induction m arbitrary: x)
  case 0
  show ?case by simp
next
  case (Suc m)
  show ?case
  proof (cases "fx_exp E x")
    case (Inl e)
    have no_later: "\<not> (\<forall>k<Suc n. \<exists>z v. nth_input E step x k = Inr z \<and> fx_exp E z = Inr v)" for n
      using Inl by (auto intro!: exI[of _ 0])
    show ?thesis
    proof
      assume "?L (Suc m) x"
      with Inl have "e = FXoverflowError" "y = x" by (auto split: if_splits)
      with Inl have "nth_input E step x 0 = Inr y \<and> fx_exp E y = Inl FXoverflowError" by simp
      then show "?R (Suc m) x" by (intro exI[of _ 0]) simp
    next
      assume "?R (Suc m) x"
      then obtain n where n: "nth_input E step x n = Inr y" "fx_exp E y = Inl FXoverflowError"
        "\<forall>k<n. \<exists>z v. nth_input E step x k = Inr z \<and> fx_exp E z = Inr v" by blast
      have "n = 0"
      proof (cases n)
        case 0 then show ?thesis .
      next
        case (Suc n')
        with n(3) no_later[of n'] show ?thesis by blast
      qed
      with n have "y = x" "e = FXoverflowError" using Inl by auto
      with Inl show "?L (Suc m) x" by simp
    qed
  next
    case (Inr v)
    note ex = this
    show ?thesis
    proof (cases "fx_add E x step")
      case (Inl e)
      have "\<not> ?R (Suc m) x"
      proof
        assume "?R (Suc m) x"
        then obtain n where n: "nth_input E step x n = Inr y" "fx_exp E y = Inl FXoverflowError"
          by blast
        show False
        proof (cases n)
          case 0
          with n ex show False by simp
        next
          case (Suc n')
          with n(1) nth_input_add_fails[OF Inl, of n'] show False by simp
        qed
      qed
      moreover have "\<not> ?L (Suc m) x" using ex Inl by simp
      ultimately show ?thesis by blast
    next
      case (Inr x')
      note add = this
      have L: "?L (Suc m) x \<longleftrightarrow> ?L m x'" using ex add by simp
      have R: "?R (Suc m) x \<longleftrightarrow> ?R m x'"
      proof
        assume "?R (Suc m) x"
        then obtain n where n: "n < Suc m" "nth_input E step x n = Inr y"
          "fx_exp E y = Inl FXoverflowError"
          "\<forall>k<n. \<exists>z v. nth_input E step x k = Inr z \<and> fx_exp E z = Inr v" by blast
        from n(2,3) ex obtain n' where n': "n = Suc n'" by (cases n) auto
        have "\<forall>k<n'. \<exists>z v. nth_input E step x' k = Inr z \<and> fx_exp E z = Inr v"
        proof (intro allI impI)
          fix k assume "k < n'"
          then have "Suc k < n" using n' by simp
          with n(4) obtain z v where "nth_input E step x (Suc k) = Inr z" "fx_exp E z = Inr v"
            by blast
          then show "\<exists>z v. nth_input E step x' k = Inr z \<and> fx_exp E z = Inr v"
            using nth_input_shift[OF add, of k] by (auto simp del: nth_input.simps)
        qed
        moreover have "nth_input E step x' n' = Inr y"
          using n(2) n' nth_input_shift[OF add, of n'] by simp
        moreover have "n' < m" using n(1) n' by simp
        ultimately show "?R m x'" using n(3) by blast
      next
        assume "?R m x'"
        then obtain n where n: "n < m" "nth_input E step x' n = Inr y"
          "fx_exp E y = Inl FXoverflowError"
          "\<forall>k<n. \<exists>z v. nth_input E step x' k = Inr z \<and> fx_exp E z = Inr v" by blast
        have "\<forall>k<Suc n. \<exists>z v. nth_input E step x k = Inr z \<and> fx_exp E z = Inr v"
        proof (intro allI impI)
          fix k assume k: "k < Suc n"
          show "\<exists>z v. nth_input E step x k = Inr z \<and> fx_exp E z = Inr v"
          proof (cases k)
            case 0
            with ex show ?thesis by simp
          next
            case (Suc k')
            with k have "k' < n" by simp
            with n(4) obtain z v where "nth_input E step x' k' = Inr z" "fx_exp E z = Inr v"
              by blast
            then show ?thesis using Suc nth_input_shift[OF add, of k'] by auto
          qed
        qed
        moreover have "nth_input E step x (Suc n) = Inr y"
          using n(2) nth_input_shift[OF add, of n] by simp
        moreover have "Suc n < Suc m" using n(1) by simp
        ultimately show "?R (Suc m) x" using n(3) by blast
      qed
      from L R Suc.IH[of x'] show ?thesis by simp
    qed
  qed
qed

lemma whileLoop_upto_None_iff:
  "whileLoop_upto m E step x = None \<longleftrightarrow>
   (\<forall>k<m. \<exists>z v. nth_input E step x k = Inr z \<and> fx_exp E z = Inr v) \<and>
   (\<exists>z. nth_input E step x m = Inr z)"
  (is "?L m x \<longleftrightarrow> ?A m x \<and> ?B m x")
proof (induction m arbitrary: x)
  case 0
  show ?case by simp
next
  case (Suc m)
  show ?case
  proof (cases "fx_exp E x")
    case (Inl e)
    then have "\<not> ?A (Suc m) x" by (auto intro!: exI[of _ 0])
    moreover have "\<not> ?L (Suc m) x" using Inl by simp
    ultimately show ?thesis by blast
  next
    case (Inr v)
    note ex = this
    show ?thesis
    proof (cases "fx_add E x step")
      case (Inl e)
      then have "\<not> ?B (Suc m) x" using nth_input_add_fails[OF Inl, of m] by simp
      moreover have "\<not> ?L (Suc m) x" using ex Inl by simp
      ultimately show ?thesis by blast
    next
      case (Inr x')
      note add = this
      have L: "?L (Suc m) x \<longleftrightarrow> ?L m x'" using ex add by simp
      have B: "?B (Suc m) x \<longleftrightarrow> ?B m x'" using nth_input_shift[OF add, of m] by simp
      have A: "?A (Suc m) x \<longleftrightarrow> ?A m x'"
      proof
        assume a: "?A (Suc m) x"
        show "?A m x'"
        proof (intro allI impI)
          fix k assume "k < m"
          then have "Suc k < Suc m" by simp
          with a obtain z v where "nth_input E step x (Suc k) = Inr z" "fx_exp E z = Inr v"
            by blast
          then show "\<exists>z v. nth_input E step x' k = Inr z \<and> fx_exp E z = Inr v"
            using nth_input_shift[OF add, of k] by (auto simp del: nth_input.simps)
        qed
      next
        assume a: "?A m x'"
        show "?A (Suc m) x"
        proof (intro allI impI)
          fix k assume k: "k < Suc m"
          show "\<exists>z v. nth_input E step x k = Inr z \<and> fx_exp E z = Inr v"
          proof (cases k)
            case 0
            with ex show ?thesis by simp
          next
            case (Suc k')
            with k have "k' < m" by simp
            with a obtain z v where "nth_input E step x' k' = Inr z" "fx_exp E z = Inr v"
              by blast
            then show ?thesis using Suc nth_input_shift[OF add, of k'] by auto
          qed
        qed
      qed
      from L A B Suc.IH[of x'] show ?thesis by simp
    qed
  qed
qed

text \<open>
  Claim C9. The loop is left by its \<^verbatim>\<open>break\<close>, at \<open>y\<close>, exactly when some round has
  \<open>y\<close> as input, \<^verbatim>\<open>exp\<close> raises the overflow error on it, and in every earlier round
  \<^verbatim>\<open>exp\<close> returned and \<^verbatim>\<open>x += step\<close> went through. No bound on the rounds exists:
  the loop runs forever exactly when \<^verbatim>\<open>exp\<close> returns on every input of the sequence.
  Any other way out is an exception leaving the loop.
\<close>

theorem whileLoop_single_exit:
  "(whileLoop E step x = Some (Inr y) \<longleftrightarrow>
      (\<exists>n. nth_input E step x n = Inr y \<and> fx_exp E y = Inl FXoverflowError \<and>
           (\<forall>k<n. \<exists>z v. nth_input E step x k = Inr z \<and> fx_exp E z = Inr v))) \<and>
   (whileLoop E step x = None \<longleftrightarrow>
      (\<forall>n. \<exists>z v. nth_input E step x n = Inr z \<and> fx_exp E z = Inr v))"
proof
  show "whileLoop E step x = Some (Inr y) \<longleftrightarrow>
      (\<exists>n. nth_input E step x n = Inr y \<and> fx_exp E y = Inl FXoverflowError \<and>
           (\<forall>k<n. \<exists>z v. nth_input E step x k = Inr z \<and> fx_exp E z = Inr v))"
    unfolding whileLoop_eq_Some_iff whileLoop_upto_break_iff by blast
next
  show "whileLoop E step x = None \<longleftrightarrow>
      (\<forall>n. \<exists>z v. nth_input E step x n = Inr z \<and> fx_exp E z = Inr v)"
    unfolding whileLoop_eq_None_iff whileLoop_upto_None_iff
  proof
    assume a: "\<forall>n. (\<forall>k<n. \<exists>z v. nth_input E step x k = Inr z \<and> fx_exp E z = Inr v) \<and>
                 (\<exists>z. nth_input E step x n = Inr z)"
    show "\<forall>n. \<exists>z v. nth_input E step x n = Inr z \<and> fx_exp E z = Inr v"
    proof
      fix n
      from a have "\<forall>k<Suc n. \<exists>z v. nth_input E step x k = Inr z \<and> fx_exp E z = Inr v"
        by blast
      then show "\<exists>z v. nth_input E step x n = Inr z \<and> fx_exp E z = Inr v" by blast
    qed
  next
    assume "\<forall>n. \<exists>z v. nth_input E step x n = Inr z \<and> fx_exp E z = Inr v"
    then show "\<forall>n. (\<forall>k<n. \<exists>z v. nth_input E step x k = Inr z \<and> fx_exp E z = Inr v) \<and>
                 (\<exists>z. nth_input E step x n = Inr z)"
      by blast
  qed
qed

section \<open>The reference run of the overflow demo\<close>

lemma ref_loop_width4:
  "whileLoop_upto 30 (spec_engine ref_numerics) (FloatLit 1 10)
     \<lparr>scaledValue = 0, family = \<lparr>resolution = 20, integerBits = 4\<rparr>\<rparr>
   = Some (Inr \<lparr>scaledValue = 2201997, family = \<lparr>resolution = 20, integerBits = 4\<rparr>\<rparr>)"
  by code_simp

lemma ref_loop_width8:
  "whileLoop_upto 60 (spec_engine ref_numerics) (FloatLit 1 10)
     \<lparr>scaledValue = 0, family = \<lparr>resolution = 20, integerBits = 8\<rparr>\<rparr>
   = Some (Inr \<lparr>scaledValue = 5137993, family = \<lparr>resolution = 20, integerBits = 8\<rparr>\<rparr>)"
  by code_simp

lemma ref_loop_width16:
  "whileLoop_upto 110 (spec_engine ref_numerics) (FloatLit 1 10)
     \<lparr>scaledValue = 0, family = \<lparr>resolution = 20, integerBits = 16\<rparr>\<rparr>
   = Some (Inr \<lparr>scaledValue = 10905128, family = \<lparr>resolution = 20, integerBits = 16\<rparr>\<rparr>)"
  by code_simp

lemma ref_loop_width32:
  "whileLoop_upto 220 (spec_engine ref_numerics) (FloatLit 1 10)
     \<lparr>scaledValue = 0, family = \<lparr>resolution = 20, integerBits = 32\<rparr>\<rparr>
   = Some (Inr \<lparr>scaledValue = 22544255, family = \<lparr>resolution = 20, integerBits = 32\<rparr>\<rparr>)"
  by code_simp

lemma overflowDemo_body_spec:
  "overflowDemo_body (spec_engine N) res w =
     (case whileLoop (spec_engine N) (FloatLit 1 10)
             \<lparr>scaledValue = 0, family = \<lparr>resolution = res, integerBits = w\<rparr>\<rparr> of
        None \<Rightarrow> None
      | Some (Inl e) \<Rightarrow> Some ([], Some e)
      | Some (Inr x) \<Rightarrow>
          Some ([Print [Int2d (int w),
                   Txt ''-bit integer part: exp(x) overflows near x='',
                   Float3g x]], None))"
  by (simp add: overflowDemo_body_def spec_engine_def spec_FXfamily_def spec_FXnum_def
        validate_def in_range_def)

lemma ref_body_width4:
  "overflowDemo_body (spec_engine ref_numerics) 20 4 =
     Some ([Print [Int2d 4, Txt ''-bit integer part: exp(x) overflows near x='',
              Float3g \<lparr>scaledValue = 2201997,
                        family = \<lparr>resolution = 20, integerBits = 4\<rparr>\<rparr>]], None)"
  by (simp add: overflowDemo_body_spec whileLoop_upto_sound[OF ref_loop_width4])

lemma ref_body_width8:
  "overflowDemo_body (spec_engine ref_numerics) 20 8 =
     Some ([Print [Int2d 8, Txt ''-bit integer part: exp(x) overflows near x='',
              Float3g \<lparr>scaledValue = 5137993,
                        family = \<lparr>resolution = 20, integerBits = 8\<rparr>\<rparr>]], None)"
  by (simp add: overflowDemo_body_spec whileLoop_upto_sound[OF ref_loop_width8])

lemma ref_body_width16:
  "overflowDemo_body (spec_engine ref_numerics) 20 16 =
     Some ([Print [Int2d 16, Txt ''-bit integer part: exp(x) overflows near x='',
              Float3g \<lparr>scaledValue = 10905128,
                        family = \<lparr>resolution = 20, integerBits = 16\<rparr>\<rparr>]], None)"
  by (simp add: overflowDemo_body_spec whileLoop_upto_sound[OF ref_loop_width16])

lemma ref_body_width32:
  "overflowDemo_body (spec_engine ref_numerics) 20 32 =
     Some ([Print [Int2d 32, Txt ''-bit integer part: exp(x) overflows near x='',
              Float3g \<lparr>scaledValue = 22544255,
                        family = \<lparr>resolution = 20, integerBits = 32\<rparr>\<rparr>]], None)"
  by (simp add: overflowDemo_body_spec whileLoop_upto_sound[OF ref_loop_width32])

lemma overflowDemo_ref_run:
  "overflowDemo ref_engine =
     Some ([Print [Txt ''=== '', IntD 20, Txt ''-bit fractional part ===''],
            Print [Int2d 4, Txt ''-bit integer part: exp(x) overflows near x='',
              Float3g \<lparr>scaledValue = 2201997,
                        family = \<lparr>resolution = 20, integerBits = 4\<rparr>\<rparr>],
            Print [Int2d 8, Txt ''-bit integer part: exp(x) overflows near x='',
              Float3g \<lparr>scaledValue = 5137993,
                        family = \<lparr>resolution = 20, integerBits = 8\<rparr>\<rparr>],
            Print [Int2d 16, Txt ''-bit integer part: exp(x) overflows near x='',
              Float3g \<lparr>scaledValue = 10905128,
                        family = \<lparr>resolution = 20, integerBits = 16\<rparr>\<rparr>],
            Print [Int2d 32, Txt ''-bit integer part: exp(x) overflows near x='',
              Float3g \<lparr>scaledValue = 22544255,
                        family = \<lparr>resolution = 20, integerBits = 32\<rparr>\<rparr>],
            Print []], None)"
  by (simp add: overflowDemo_def ref_engine_def
        ref_body_width4 ref_body_width8 ref_body_width16 ref_body_width32)

theorem whileLoop_single_exit_witness:
  "whileLoop ref_engine (FloatLit 1 10)
     \<lparr>scaledValue = 0, family = \<lparr>resolution = 20, integerBits = 4\<rparr>\<rparr>
     = Some (Inr \<lparr>scaledValue = 2201997, family = \<lparr>resolution = 20, integerBits = 4\<rparr>\<rparr>) \<and>
   (\<exists>n. nth_input ref_engine (FloatLit 1 10)
          \<lparr>scaledValue = 0, family = \<lparr>resolution = 20, integerBits = 4\<rparr>\<rparr> n
          = Inr \<lparr>scaledValue = 2201997, family = \<lparr>resolution = 20, integerBits = 4\<rparr>\<rparr> \<and>
        fx_exp ref_engine \<lparr>scaledValue = 2201997, family = \<lparr>resolution = 20, integerBits = 4\<rparr>\<rparr>
          = Inl FXoverflowError) \<and>
   whileLoop ref_engine (FloatLit 0 10)
     \<lparr>scaledValue = 0, family = \<lparr>resolution = 20, integerBits = 4\<rparr>\<rparr> = None"
proof -
  let ?x0 = "\<lparr>scaledValue = 0, family = \<lparr>resolution = 20, integerBits = 4\<rparr>\<rparr>"
  let ?y = "\<lparr>scaledValue = 2201997, family = \<lparr>resolution = 20, integerBits = 4\<rparr>\<rparr>"
  note T = whileLoop_single_exit
  have loop: "whileLoop ref_engine (FloatLit 1 10) ?x0 = Some (Inr ?y)"
    unfolding ref_engine_def by (rule whileLoop_upto_sound[OF ref_loop_width4])
  then have ex: "\<exists>n. nth_input ref_engine (FloatLit 1 10) ?x0 n = Inr ?y \<and>
      fx_exp ref_engine ?y = Inl FXoverflowError"
    using T[where E=ref_engine and step="FloatLit 1 10" and x="?x0" and y="?y"] by blast
  have add0: "fx_add ref_engine ?x0 (FloatLit 0 10) = Inr ?x0"
    by (simp add: ref_engine_def spec_engine_def spec_add_def promote_def spec_FXnum_def
          validate_def in_range_def)
  have stay: "nth_input ref_engine (FloatLit 0 10) ?x0 n = Inr ?x0" for n
    by (induction n) (simp_all add: add0)
  have e0: "fx_exp ref_engine ?x0 =
      Inr \<lparr>scaledValue = 1048576, family = \<lparr>resolution = 20, integerBits = 4\<rparr>\<rparr>"
    by code_simp
  have "\<forall>n. \<exists>z v. nth_input ref_engine (FloatLit 0 10) ?x0 n = Inr z \<and> fx_exp ref_engine z = Inr v"
    using stay e0 by blast
  then have never: "whileLoop ref_engine (FloatLit 0 10) ?x0 = None"
    using T[where E=ref_engine and step="FloatLit 0 10" and x="?x0"] by blast
  from loop ex never show ?thesis by blast
qed

section \<open>What the harness catches\<close>

lemma whileLoop_exp_overflow:
  "fx_exp E x = Inl FXoverflowError \<Longrightarrow> whileLoop E step x = Some (Inr x)"
  by (subst whileLoop.simps) simp

lemma whileLoop_exp_raises:
  "fx_exp E x = Inl e \<Longrightarrow> e \<noteq> FXoverflowError \<Longrightarrow> whileLoop E step x = Some (Inl e)"
  by (subst whileLoop.simps) simp

lemma whileLoop_add_raises:
  "fx_exp E x = Inr v \<Longrightarrow> fx_add E x step = Inl e \<Longrightarrow> whileLoop E step x = Some (Inl e)"
  by (subst whileLoop.simps) simp

section \<open>Narrower widths overflow no later\<close>

lemma in_range_mono:
  assumes "resolution F1 = resolution F2" and "integerBits F1 \<le> integerBits F2"
    and "in_range F1 v"
  shows "in_range F2 v"
proof -
  have le: "(2::int) ^ (resolution F1 + integerBits F1 - 1) \<le> 2 ^ (resolution F2 + integerBits F2 - 1)"
    using assms(1,2) by (intro power_increasing) auto
  from assms(3) have "\<bar>v\<bar> < 2 ^ (resolution F1 + integerBits F1 - 1)"
    unfolding in_range_def .
  then have "\<bar>v\<bar> < 2 ^ (resolution F2 + integerBits F2 - 1)"
    using le by (rule order_less_le_trans)
  then show ?thesis
    unfolding in_range_def .
qed

lemma spec_add_FloatLit_Inr:
  assumes "spec_add x (FloatLit p q) = Inr x'"
  shows "x' = \<lparr>scaledValue = scaledValue x + (p * 2 ^ resolution (family x)) div q,
               family = family x\<rparr>"
  using assms
  by (auto simp: spec_add_def promote_def spec_FXnum_def validate_def
           split: sum.splits if_splits)

lemma spec_exp_Inl:
  "spec_exp N x = Inl e \<Longrightarrow> e = FXoverflowError"
  by (simp add: spec_exp_def validate_Inl_iff)

lemma whileLoop_upto_spec_start_le:
  assumes "whileLoop_upto n (spec_engine N) (FloatLit p q) x = Some (Inr y)"
    and "0 \<le> p" and "0 < q"
  shows "scaledValue x \<le> scaledValue y"
  using assms(1)
proof (induction n arbitrary: x)
  case 0
  then show ?case by simp
next
  case (Suc n)
  show ?case
  proof (cases "spec_exp N x")
    case (Inl e)
    with Suc.prems have "y = x"
      by (simp add: spec_engine_def split: if_splits)
    then show ?thesis by simp
  next
    case (Inr ex)
    with Suc.prems obtain x' where add: "spec_add x (FloatLit p q) = Inr x'"
      and rest: "whileLoop_upto n (spec_engine N) (FloatLit p q) x' = Some (Inr y)"
      by (auto simp: spec_engine_def split: sum.splits)
    have "0 \<le> (p * 2 ^ resolution (family x)) div q"
      using assms(2,3) by (simp add: pos_imp_zdiv_nonneg_iff)
    with spec_add_FloatLit_Inr[OF add] have "scaledValue x \<le> scaledValue x'" by simp
    with Suc.IH[OF rest] show ?thesis by simp
  qed
qed

lemma whileLoop_upto_spec_width_mono:
  assumes "whileLoop_upto n1 (spec_engine N) (FloatLit p q) x1 = Some (Inr y1)"
    and "whileLoop_upto n2 (spec_engine N) (FloatLit p q) x2 = Some (Inr y2)"
    and "scaledValue x1 = scaledValue x2"
    and "resolution (family x1) = resolution (family x2)"
    and "integerBits (family x1) \<le> integerBits (family x2)"
    and "0 \<le> p" and "0 < q"
  shows "scaledValue y1 \<le> scaledValue y2"
  using assms(1-5)
proof (induction n1 arbitrary: n2 x1 x2)
  case 0
  then show ?case by simp
next
  case (Suc n1)
  show ?case
  proof (cases "spec_exp N x1")
    case (Inl e)
    with Suc.prems(1) have "y1 = x1"
      by (simp add: spec_engine_def split: if_splits)
    with Suc.prems(3) whileLoop_upto_spec_start_le[OF Suc.prems(2) assms(6,7)]
    show ?thesis by simp
  next
    case (Inr ex1)
    then have "in_range (family x1) (expRaw N (resolution (family x1)) (scaledValue x1))"
      by (simp add: spec_exp_def validate_Inr_iff)
    then have "in_range (family x2) (expRaw N (resolution (family x2)) (scaledValue x2))"
      using in_range_mono[OF Suc.prems(4,5)] Suc.prems(3,4) by simp
    then obtain ex2 where ex2: "spec_exp N x2 = Inr ex2"
      by (simp add: spec_exp_def validate_def)
    from Suc.prems(2) obtain m2 where n2: "n2 = Suc m2" by (cases n2) auto
    from Suc.prems(1) Inr obtain x1' where add1: "spec_add x1 (FloatLit p q) = Inr x1'"
      and rest1: "whileLoop_upto n1 (spec_engine N) (FloatLit p q) x1' = Some (Inr y1)"
      by (auto simp: spec_engine_def split: sum.splits)
    from Suc.prems(2) n2 ex2 obtain x2' where add2: "spec_add x2 (FloatLit p q) = Inr x2'"
      and rest2: "whileLoop_upto m2 (spec_engine N) (FloatLit p q) x2' = Some (Inr y2)"
      by (auto simp: spec_engine_def split: sum.splits)
    note a1 = spec_add_FloatLit_Inr[OF add1] and a2 = spec_add_FloatLit_Inr[OF add2]
    have "scaledValue x1' = scaledValue x2'" using a1 a2 Suc.prems(3,4) by simp
    moreover have "resolution (family x1') = resolution (family x2')"
      using a1 a2 Suc.prems(4) by simp
    moreover have "integerBits (family x1') \<le> integerBits (family x2')"
      using a1 a2 Suc.prems(5) by simp
    ultimately show ?thesis
      using Suc.IH[OF rest1 rest2] by simp
  qed
qed

lemma overflowDemo_body_spec_report:
  assumes "overflowDemo_body (spec_engine N) res w = Some ([Print [i, t, Float3g y]], None)"
  shows "whileLoop (spec_engine N) (FloatLit 1 10)
           \<lparr>scaledValue = 0, family = \<lparr>resolution = res, integerBits = w\<rparr>\<rparr> = Some (Inr y)"
  using assms
  by (auto simp: overflowDemo_body_def spec_engine_def spec_FXfamily_def spec_FXnum_def
        validate_def Let_def split: sum.splits option.splits if_splits)

lemma demo_input_0:
  "demo_input res w 0 = \<lparr>scaledValue = 0, family = \<lparr>resolution = res, integerBits = w\<rparr>\<rparr>"
  by (simp add: demo_input_def)

lemma spec_add_demo_input:
  assumes "spec_add (demo_input res w k) (FloatLit 1 10) = Inr x'"
  shows "x' = demo_input res w (Suc k)"
  using spec_add_FloatLit_Inr[OF assms]
  by (simp add: demo_input_def algebra_simps)

lemma spec_add_FloatLit_Inl:
  "spec_add x (FloatLit p q) = Inl e \<Longrightarrow> e = FXoverflowError"
  by (auto simp: spec_add_def promote_def spec_FXnum_def validate_def
           split: sum.splits if_splits)

lemma spec_exp_cases:
  "spec_exp N x = Inl FXoverflowError \<or> (\<exists>v. spec_exp N x = Inr v)"
  by (simp add: spec_exp_def validate_def)

lemma spec_exp_width_mono:
  assumes "w1 \<le> w2"
    and "spec_exp N \<lparr>scaledValue = v, family = \<lparr>resolution = res, integerBits = w2\<rparr>\<rparr>
           = Inl FXoverflowError"
  shows "spec_exp N \<lparr>scaledValue = v, family = \<lparr>resolution = res, integerBits = w1\<rparr>\<rparr>
           = Inl FXoverflowError"
proof -
  from assms(2) have "\<not> in_range \<lparr>resolution = res, integerBits = w2\<rparr> (expRaw N res v)"
    by (simp add: spec_exp_def validate_Inl_iff)
  then have "\<not> in_range \<lparr>resolution = res, integerBits = w1\<rparr> (expRaw N res v)"
    using in_range_mono[of "\<lparr>resolution = res, integerBits = w1\<rparr>"
            "\<lparr>resolution = res, integerBits = w2\<rparr>" "expRaw N res v"] assms(1)
    by auto
  then show ?thesis
    by (simp add: spec_exp_def validate_def)
qed

lemma whileLoop_upto_demo_inputs:
  assumes "whileLoop_upto n (spec_engine N) (FloatLit 1 10) (demo_input res w k) = Some (Inr y)"
  shows "\<exists>m. y = demo_input res w (k + m) \<and>
             spec_exp N (demo_input res w (k + m)) = Inl FXoverflowError \<and>
             (\<forall>j<m. \<exists>v. spec_exp N (demo_input res w (k + j)) = Inr v)"
  using assms
proof (induction n arbitrary: k)
  case 0
  then show ?case by simp
next
  case (Suc n)
  show ?case
  proof (cases "spec_exp N (demo_input res w k)")
    case (Inl e)
    then have e: "e = FXoverflowError" by (rule spec_exp_Inl)
    with Inl Suc.prems have "y = demo_input res w k"
      by (simp add: spec_engine_def)
    with Inl e have "y = demo_input res w (k + 0) \<and>
        spec_exp N (demo_input res w (k + 0)) = Inl FXoverflowError \<and>
        (\<forall>j<0. \<exists>v. spec_exp N (demo_input res w (k + j)) = Inr v)" by simp
    then show ?thesis by blast
  next
    case (Inr v)
    with Suc.prems obtain x' where add: "spec_add (demo_input res w k) (FloatLit 1 10) = Inr x'"
      and rest: "whileLoop_upto n (spec_engine N) (FloatLit 1 10) x' = Some (Inr y)"
      by (auto simp: spec_engine_def split: sum.splits)
    from spec_add_demo_input[OF add] rest
    have "whileLoop_upto n (spec_engine N) (FloatLit 1 10) (demo_input res w (Suc k)) = Some (Inr y)"
      by simp
    from Suc.IH[OF this] obtain m where m: "y = demo_input res w (Suc k + m)"
      "spec_exp N (demo_input res w (Suc k + m)) = Inl FXoverflowError"
      "\<forall>j<m. \<exists>v. spec_exp N (demo_input res w (Suc k + j)) = Inr v" by blast
    have "\<forall>j<Suc m. \<exists>v. spec_exp N (demo_input res w (k + j)) = Inr v"
    proof (intro allI impI)
      fix j assume j: "j < Suc m"
      show "\<exists>v. spec_exp N (demo_input res w (k + j)) = Inr v"
      proof (cases j)
        case 0
        with Inr show ?thesis by simp
      next
        case (Suc j')
        with j m(3) show ?thesis by simp
      qed
    qed
    with m(1,2) have "y = demo_input res w (k + Suc m) \<and>
        spec_exp N (demo_input res w (k + Suc m)) = Inl FXoverflowError \<and>
        (\<forall>j<Suc m. \<exists>v. spec_exp N (demo_input res w (k + j)) = Inr v)" by simp
    then show ?thesis by blast
  qed
qed

lemma whileLoop_demo_ends:
  assumes "spec_exp N (demo_input res w (k + m)) = Inl FXoverflowError"
    and "\<forall>j<m. \<exists>v. spec_exp N (demo_input res w (k + j)) = Inr v"
  shows "whileLoop (spec_engine N) (FloatLit 1 10) (demo_input res w k)
           = Some (Inr (demo_input res w (k + m))) \<or>
         whileLoop (spec_engine N) (FloatLit 1 10) (demo_input res w k)
           = Some (Inl FXoverflowError)"
  using assms
proof (induction m arbitrary: k)
  case 0
  then have "fx_exp (spec_engine N) (demo_input res w k) = Inl FXoverflowError"
    by (simp add: spec_engine_def)
  then show ?case
    by (simp add: whileLoop_exp_overflow)
next
  case (Suc m)
  from Suc.prems(2) obtain v where v: "spec_exp N (demo_input res w k) = Inr v"
    by force
  then have ex: "fx_exp (spec_engine N) (demo_input res w k) = Inr v"
    by (simp add: spec_engine_def)
  show ?case
  proof (cases "spec_add (demo_input res w k) (FloatLit 1 10)")
    case (Inl e)
    then have "e = FXoverflowError" by (rule spec_add_FloatLit_Inl)
    with Inl have "fx_add (spec_engine N) (demo_input res w k) (FloatLit 1 10)
        = Inl FXoverflowError"
      by (simp add: spec_engine_def)
    from whileLoop_add_raises[OF ex this] show ?thesis by simp
  next
    case (Inr x')
    then have x': "x' = demo_input res w (Suc k)" by (rule spec_add_demo_input)
    with Inr have add: "fx_add (spec_engine N) (demo_input res w k) (FloatLit 1 10)
        = Inr (demo_input res w (Suc k))"
      by (simp add: spec_engine_def)
    have unfold: "whileLoop (spec_engine N) (FloatLit 1 10) (demo_input res w k)
        = whileLoop (spec_engine N) (FloatLit 1 10) (demo_input res w (Suc k))"
      by (subst whileLoop.simps) (simp add: ex add)
    have "spec_exp N (demo_input res w (Suc k + m)) = Inl FXoverflowError"
      using Suc.prems(1) by simp
    moreover have "\<forall>j<m. \<exists>v. spec_exp N (demo_input res w (Suc k + j)) = Inr v"
    proof (intro allI impI)
      fix j assume "j < m"
      then have "Suc j < Suc m" by simp
      with Suc.prems(2) have "\<exists>v. spec_exp N (demo_input res w (k + Suc j)) = Inr v"
        by blast
      then show "\<exists>v. spec_exp N (demo_input res w (Suc k + j)) = Inr v" by simp
    qed
    ultimately show ?thesis
      using Suc.IH[of "Suc k"] unfold by simp
  qed
qed

lemma overflowDemo_body_pair:
  assumes "w1 \<le> w2"
    and "overflowDemo_body (spec_engine N) res w2 = Some ([Print [i2, t2, Float3g y2]], None)"
  shows "(\<forall>v. fx_exp (spec_engine N)
                \<lparr>scaledValue = v, family = \<lparr>resolution = res, integerBits = w2\<rparr>\<rparr>
                = Inl FXoverflowError \<longrightarrow>
              fx_exp (spec_engine N)
                \<lparr>scaledValue = v, family = \<lparr>resolution = res, integerBits = w1\<rparr>\<rparr>
                = Inl FXoverflowError) \<and>
         (\<exists>k1 k2. k1 \<le> k2 \<and>
            y2 = demo_input res w2 k2 \<and>
            fx_exp (spec_engine N) (demo_input res w2 k2) = Inl FXoverflowError \<and>
            (\<forall>j<k2. \<exists>v. fx_exp (spec_engine N) (demo_input res w2 j) = Inr v) \<and>
            fx_exp (spec_engine N) (demo_input res w1 k1) = Inl FXoverflowError \<and>
            (\<forall>j<k1. \<exists>v. fx_exp (spec_engine N) (demo_input res w1 j) = Inr v) \<and>
            scaledValue (demo_input res w1 k1) \<le> scaledValue y2 \<and>
            (overflowDemo_body (spec_engine N) res w1 =
               Some ([Print [Int2d (int w1),
                        Txt ''-bit integer part: exp(x) overflows near x='',
                        Float3g (demo_input res w1 k1)]], None) \<or>
             overflowDemo_body (spec_engine N) res w1 = Some ([], Some FXoverflowError)))"
proof
  show "\<forall>v. fx_exp (spec_engine N)
                \<lparr>scaledValue = v, family = \<lparr>resolution = res, integerBits = w2\<rparr>\<rparr>
                = Inl FXoverflowError \<longrightarrow>
              fx_exp (spec_engine N)
                \<lparr>scaledValue = v, family = \<lparr>resolution = res, integerBits = w1\<rparr>\<rparr>
                = Inl FXoverflowError"
    using spec_exp_width_mono[OF assms(1)] by (simp add: spec_engine_def)
next
  have sel: "fx_exp (spec_engine N) = spec_exp N" by (simp add: spec_engine_def)
  from overflowDemo_body_spec_report[OF assms(2)]
  have "whileLoop (spec_engine N) (FloatLit 1 10) (demo_input res w2 0) = Some (Inr y2)"
    by (simp add: demo_input_0)
  then obtain n where
    "whileLoop_upto n (spec_engine N) (FloatLit 1 10) (demo_input res w2 0) = Some (Inr y2)"
    using whileLoop_complete by blast
  from whileLoop_upto_demo_inputs[OF this] obtain k2 where k2: "y2 = demo_input res w2 k2"
    "spec_exp N (demo_input res w2 k2) = Inl FXoverflowError"
    "\<forall>j<k2. \<exists>v. spec_exp N (demo_input res w2 j) = Inr v" by auto
  from k2(2) have over1: "spec_exp N (demo_input res w1 k2) = Inl FXoverflowError"
    using spec_exp_width_mono[OF assms(1)] by (simp add: demo_input_def)
  define k1 where "k1 = (LEAST k. spec_exp N (demo_input res w1 k) = Inl FXoverflowError)"
  have k1: "spec_exp N (demo_input res w1 k1) = Inl FXoverflowError"
    unfolding k1_def using over1 by (rule LeastI)
  have le: "k1 \<le> k2"
    unfolding k1_def using over1 by (rule Least_le)
  have before: "\<forall>j<k1. \<exists>v. spec_exp N (demo_input res w1 j) = Inr v"
  proof (intro allI impI)
    fix j assume "j < k1"
    then have "spec_exp N (demo_input res w1 j) \<noteq> Inl FXoverflowError"
      unfolding k1_def by (rule not_less_Least)
    with spec_exp_cases[of N "demo_input res w1 j"]
    show "\<exists>v. spec_exp N (demo_input res w1 j) = Inr v" by blast
  qed
  have "(0::int) \<le> (1 * 2 ^ res) div 10"
    by (simp add: pos_imp_zdiv_nonneg_iff)
  then have "int k1 * ((1 * 2 ^ res) div 10) \<le> int k2 * ((1 * 2 ^ res) div 10)"
    using le by (intro mult_right_mono) auto
  then have ord: "scaledValue (demo_input res w1 k1) \<le> scaledValue y2"
    by (simp add: k2(1) demo_input_def)
  from whileLoop_demo_ends[of N res w1 0 k1] k1 before
  have "whileLoop (spec_engine N) (FloatLit 1 10) (demo_input res w1 0)
           = Some (Inr (demo_input res w1 k1)) \<or>
        whileLoop (spec_engine N) (FloatLit 1 10) (demo_input res w1 0)
           = Some (Inl FXoverflowError)" by simp
  then have ends: "overflowDemo_body (spec_engine N) res w1 =
               Some ([Print [Int2d (int w1),
                        Txt ''-bit integer part: exp(x) overflows near x='',
                        Float3g (demo_input res w1 k1)]], None) \<or>
             overflowDemo_body (spec_engine N) res w1 = Some ([], Some FXoverflowError)"
    by (auto simp: overflowDemo_body_spec demo_input_0)
  from le k2 k1 before ord ends
  show "\<exists>k1 k2. k1 \<le> k2 \<and>
            y2 = demo_input res w2 k2 \<and>
            fx_exp (spec_engine N) (demo_input res w2 k2) = Inl FXoverflowError \<and>
            (\<forall>j<k2. \<exists>v. fx_exp (spec_engine N) (demo_input res w2 j) = Inr v) \<and>
            fx_exp (spec_engine N) (demo_input res w1 k1) = Inl FXoverflowError \<and>
            (\<forall>j<k1. \<exists>v. fx_exp (spec_engine N) (demo_input res w1 j) = Inr v) \<and>
            scaledValue (demo_input res w1 k1) \<le> scaledValue y2 \<and>
            (overflowDemo_body (spec_engine N) res w1 =
               Some ([Print [Int2d (int w1),
                        Txt ''-bit integer part: exp(x) overflows near x='',
                        Float3g (demo_input res w1 k1)]], None) \<or>
             overflowDemo_body (spec_engine N) res w1 = Some ([], Some FXoverflowError))"
    unfolding sel by blast
qed

lemma whileLoop_break_overflow:
  assumes "whileLoop E step x = Some (Inr y)"
  shows "fx_exp E y = Inl FXoverflowError"
  using assms unfolding whileLoop_eq_Some_iff whileLoop_upto_break_iff by blast

lemma overflowDemo_body_spec_normal:
  assumes "overflowDemo_body (spec_engine N) res w = Some (out, None)"
  shows "\<exists>y. out = [Print [Int2d (int w), Txt ''-bit integer part: exp(x) overflows near x='',
                        Float3g y]] \<and>
             whileLoop (spec_engine N) (FloatLit 1 10)
               \<lparr>scaledValue = 0, family = \<lparr>resolution = res, integerBits = w\<rparr>\<rparr> = Some (Inr y)"
  using assms
  by (auto simp: overflowDemo_body_spec split: option.splits sum.splits)

lemma for_each_opt_normal_Cons:
  "for_each_opt body (a # as) = Some (out, None) \<longleftrightarrow>
   (\<exists>o1 o2. body a = Some (o1, None) \<and> for_each_opt body as = Some (o2, None) \<and> out = o1 @ o2)"
  by (auto split: option.splits prod.splits)

lemma overflowDemo_spec_normal:
  assumes "overflowDemo (spec_engine N) = Some (out, None)"
  shows "\<exists>y4 y8 y16 y32.
           out = [Print [Txt ''=== '', IntD 20, Txt ''-bit fractional part ===''],
                  Print [Int2d 4, Txt ''-bit integer part: exp(x) overflows near x='', Float3g y4],
                  Print [Int2d 8, Txt ''-bit integer part: exp(x) overflows near x='', Float3g y8],
                  Print [Int2d 16, Txt ''-bit integer part: exp(x) overflows near x='', Float3g y16],
                  Print [Int2d 32, Txt ''-bit integer part: exp(x) overflows near x='', Float3g y32],
                  Print []] \<and>
           scaledValue y4 \<le> scaledValue y8 \<and>
           scaledValue y8 \<le> scaledValue y16 \<and>
           scaledValue y16 \<le> scaledValue y32 \<and>
           fx_exp (spec_engine N) y4 = Inl FXoverflowError \<and> integerBits (family y4) = 4 \<and>
           fx_exp (spec_engine N) y8 = Inl FXoverflowError \<and> integerBits (family y8) = 8 \<and>
           fx_exp (spec_engine N) y16 = Inl FXoverflowError \<and> integerBits (family y16) = 16 \<and>
           fx_exp (spec_engine N) y32 = Inl FXoverflowError \<and> integerBits (family y32) = 32"
proof -
  let ?E = "spec_engine N"
  let ?x = "\<lambda>w. \<lparr>scaledValue = 0, family = \<lparr>resolution = 20, integerBits = w\<rparr>\<rparr>"
  from assms obtain outs where
    outs: "for_each_opt (overflowDemo_body ?E 20) [4, 8, 16, 32] = Some (outs, None)"
    and out: "out = Print [Txt ''=== '', IntD 20, Txt ''-bit fractional part ===''] # outs @ [Print []]"
    by (auto simp: overflowDemo_def Let_def split: option.splits prod.splits
          simp del: for_each_opt.simps)
  from outs obtain o4 o8 o16 o32 where
    b: "overflowDemo_body ?E 20 4 = Some (o4, None)"
       "overflowDemo_body ?E 20 8 = Some (o8, None)"
       "overflowDemo_body ?E 20 16 = Some (o16, None)"
       "overflowDemo_body ?E 20 32 = Some (o32, None)"
    and cat: "outs = o4 @ o8 @ o16 @ o32"
    unfolding for_each_opt_normal_Cons by auto
  from overflowDemo_body_spec_normal[OF b(1)] obtain y4 where
    y4: "o4 = [Print [Int2d 4, Txt ''-bit integer part: exp(x) overflows near x='', Float3g y4]]"
        "whileLoop ?E (FloatLit 1 10) (?x 4) = Some (Inr y4)" by auto
  from overflowDemo_body_spec_normal[OF b(2)] obtain y8 where
    y8: "o8 = [Print [Int2d 8, Txt ''-bit integer part: exp(x) overflows near x='', Float3g y8]]"
        "whileLoop ?E (FloatLit 1 10) (?x 8) = Some (Inr y8)" by auto
  from overflowDemo_body_spec_normal[OF b(3)] obtain y16 where
    y16: "o16 = [Print [Int2d 16, Txt ''-bit integer part: exp(x) overflows near x='', Float3g y16]]"
        "whileLoop ?E (FloatLit 1 10) (?x 16) = Some (Inr y16)" by auto
  from overflowDemo_body_spec_normal[OF b(4)] obtain y32 where
    y32: "o32 = [Print [Int2d 32, Txt ''-bit integer part: exp(x) overflows near x='', Float3g y32]]"
        "whileLoop ?E (FloatLit 1 10) (?x 32) = Some (Inr y32)" by auto
  from y4(2) y8(2) y16(2) y32(2) obtain n4 n8 n16 n32 where
    u: "whileLoop_upto n4 ?E (FloatLit 1 10) (?x 4) = Some (Inr y4)"
       "whileLoop_upto n8 ?E (FloatLit 1 10) (?x 8) = Some (Inr y8)"
       "whileLoop_upto n16 ?E (FloatLit 1 10) (?x 16) = Some (Inr y16)"
       "whileLoop_upto n32 ?E (FloatLit 1 10) (?x 32) = Some (Inr y32)"
    using whileLoop_complete by meson
  have ord: "scaledValue y4 \<le> scaledValue y8" "scaledValue y8 \<le> scaledValue y16"
    "scaledValue y16 \<le> scaledValue y32"
    using whileLoop_upto_spec_width_mono[OF u(1) u(2)]
      whileLoop_upto_spec_width_mono[OF u(2) u(3)]
      whileLoop_upto_spec_width_mono[OF u(3) u(4)] by simp_all
  have fam: "integerBits (family y4) = 4" "integerBits (family y8) = 8"
    "integerBits (family y16) = 16" "integerBits (family y32) = 32"
    using whileLoop_upto_demo_inputs[of n4 N 20 4 0 y4] whileLoop_upto_demo_inputs[of n8 N 20 8 0 y8]
      whileLoop_upto_demo_inputs[of n16 N 20 16 0 y16]
      whileLoop_upto_demo_inputs[of n32 N 20 32 0 y32] u
    by (auto simp: demo_input_def)
  note ov = whileLoop_break_overflow[OF y4(2)] whileLoop_break_overflow[OF y8(2)]
    whileLoop_break_overflow[OF y16(2)] whileLoop_break_overflow[OF y32(2)]
  from out cat y4(1) y8(1) y16(1) y32(1) ord fam ov show ?thesis
    by auto
qed

text \<open>
  Claim C1. Under the engine of the specification, for any solver values:
  an input on which \<^verbatim>\<open>exp\<close> overflows at an integer width overflows at every narrower
  width of the same resolution. When the demo reports an overflow point for a width
  \<open>w2\<close>, that point is the first input of the sequence \<open>0, 0.1, 0.2, ...\<close> on which
  \<^verbatim>\<open>exp\<close> overflows at \<open>w2\<close>; at a width \<open>w1 \<le> w2\<close> a first such input exists, is no
  larger, and the round of \<open>w1\<close> ends there with its report (unless \<^verbatim>\<open>x += step\<close>
  fails the range check before, which ends the round with the uncaught overflow).
  When the whole demo returns, it has printed one report for each of the widths 4, 8, 16
  and 32, at inputs on which \<^verbatim>\<open>exp\<close> overflows, in ascending order of the inputs. On
  the reference numerics the demo returns, with the points 2.1, 4.9, 10.4 and 21.5.
\<close>

theorem narrower_width_overflows_no_later:
  "(w1 \<le> w2 \<longrightarrow>
      (\<forall>v. fx_exp (spec_engine N)
             \<lparr>scaledValue = v, family = \<lparr>resolution = res, integerBits = w2\<rparr>\<rparr>
             = Inl FXoverflowError \<longrightarrow>
           fx_exp (spec_engine N)
             \<lparr>scaledValue = v, family = \<lparr>resolution = res, integerBits = w1\<rparr>\<rparr>
             = Inl FXoverflowError)) \<and>
   (w1 \<le> w2 \<and>
    overflowDemo_body (spec_engine N) res w2 = Some ([Print [i2, t2, Float3g y2]], None) \<longrightarrow>
      (\<exists>k1 k2. k1 \<le> k2 \<and>
        y2 = demo_input res w2 k2 \<and>
        fx_exp (spec_engine N) (demo_input res w2 k2) = Inl FXoverflowError \<and>
        (\<forall>j<k2. \<exists>v. fx_exp (spec_engine N) (demo_input res w2 j) = Inr v) \<and>
        fx_exp (spec_engine N) (demo_input res w1 k1) = Inl FXoverflowError \<and>
        (\<forall>j<k1. \<exists>v. fx_exp (spec_engine N) (demo_input res w1 j) = Inr v) \<and>
        scaledValue (demo_input res w1 k1) \<le> scaledValue y2 \<and>
        (overflowDemo_body (spec_engine N) res w1 =
           Some ([Print [Int2d (int w1),
                    Txt ''-bit integer part: exp(x) overflows near x='',
                    Float3g (demo_input res w1 k1)]], None) \<or>
         overflowDemo_body (spec_engine N) res w1 = Some ([], Some FXoverflowError)))) \<and>
   (overflowDemo (spec_engine N) = Some (out, None) \<longrightarrow>
      (\<exists>y4 y8 y16 y32.
        out =
          [Print [Txt ''=== '', IntD 20, Txt ''-bit fractional part ===''],
           Print [Int2d 4, Txt ''-bit integer part: exp(x) overflows near x='', Float3g y4],
           Print [Int2d 8, Txt ''-bit integer part: exp(x) overflows near x='', Float3g y8],
           Print [Int2d 16, Txt ''-bit integer part: exp(x) overflows near x='', Float3g y16],
           Print [Int2d 32, Txt ''-bit integer part: exp(x) overflows near x='', Float3g y32],
           Print []] \<and>
        scaledValue y4 \<le> scaledValue y8 \<and>
        scaledValue y8 \<le> scaledValue y16 \<and>
        scaledValue y16 \<le> scaledValue y32 \<and>
        fx_exp (spec_engine N) y4 = Inl FXoverflowError \<and> integerBits (family y4) = 4 \<and>
        fx_exp (spec_engine N) y8 = Inl FXoverflowError \<and> integerBits (family y8) = 8 \<and>
        fx_exp (spec_engine N) y16 = Inl FXoverflowError \<and> integerBits (family y16) = 16 \<and>
        fx_exp (spec_engine N) y32 = Inl FXoverflowError \<and> integerBits (family y32) = 32)) \<and>
   overflowDemo ref_engine =
     Some ([Print [Txt ''=== '', IntD 20, Txt ''-bit fractional part ===''],
        Print [Int2d 4, Txt ''-bit integer part: exp(x) overflows near x='', Float3g \<lparr>scaledValue = 2201997, family = \<lparr>resolution = 20, integerBits = 4\<rparr>\<rparr>],
        Print [Int2d 8, Txt ''-bit integer part: exp(x) overflows near x='', Float3g \<lparr>scaledValue = 5137993, family = \<lparr>resolution = 20, integerBits = 8\<rparr>\<rparr>],
        Print [Int2d 16, Txt ''-bit integer part: exp(x) overflows near x='', Float3g \<lparr>scaledValue = 10905128, family = \<lparr>resolution = 20, integerBits = 16\<rparr>\<rparr>],
        Print [Int2d 32, Txt ''-bit integer part: exp(x) overflows near x='', Float3g \<lparr>scaledValue = 22544255, family = \<lparr>resolution = 20, integerBits = 32\<rparr>\<rparr>],
        Print []], None)"
proof (intro conjI impI)
  assume "w1 \<le> w2"
  then show "\<forall>v. fx_exp (spec_engine N)
             \<lparr>scaledValue = v, family = \<lparr>resolution = res, integerBits = w2\<rparr>\<rparr>
             = Inl FXoverflowError \<longrightarrow>
           fx_exp (spec_engine N)
             \<lparr>scaledValue = v, family = \<lparr>resolution = res, integerBits = w1\<rparr>\<rparr>
             = Inl FXoverflowError"
    using spec_exp_width_mono by (simp add: spec_engine_def)
next
  assume "w1 \<le> w2 \<and>
    overflowDemo_body (spec_engine N) res w2 = Some ([Print [i2, t2, Float3g y2]], None)"
  then show "\<exists>k1 k2. k1 \<le> k2 \<and>
        y2 = demo_input res w2 k2 \<and>
        fx_exp (spec_engine N) (demo_input res w2 k2) = Inl FXoverflowError \<and>
        (\<forall>j<k2. \<exists>v. fx_exp (spec_engine N) (demo_input res w2 j) = Inr v) \<and>
        fx_exp (spec_engine N) (demo_input res w1 k1) = Inl FXoverflowError \<and>
        (\<forall>j<k1. \<exists>v. fx_exp (spec_engine N) (demo_input res w1 j) = Inr v) \<and>
        scaledValue (demo_input res w1 k1) \<le> scaledValue y2 \<and>
        (overflowDemo_body (spec_engine N) res w1 =
           Some ([Print [Int2d (int w1),
                    Txt ''-bit integer part: exp(x) overflows near x='',
                    Float3g (demo_input res w1 k1)]], None) \<or>
         overflowDemo_body (spec_engine N) res w1 = Some ([], Some FXoverflowError))"
    using overflowDemo_body_pair[of w1 w2 N res i2 t2 y2] by blast
next
  assume "overflowDemo (spec_engine N) = Some (out, None)"
  then show "\<exists>y4 y8 y16 y32.
        out =
          [Print [Txt ''=== '', IntD 20, Txt ''-bit fractional part ===''],
           Print [Int2d 4, Txt ''-bit integer part: exp(x) overflows near x='', Float3g y4],
           Print [Int2d 8, Txt ''-bit integer part: exp(x) overflows near x='', Float3g y8],
           Print [Int2d 16, Txt ''-bit integer part: exp(x) overflows near x='', Float3g y16],
           Print [Int2d 32, Txt ''-bit integer part: exp(x) overflows near x='', Float3g y32],
           Print []] \<and>
        scaledValue y4 \<le> scaledValue y8 \<and>
        scaledValue y8 \<le> scaledValue y16 \<and>
        scaledValue y16 \<le> scaledValue y32 \<and>
        fx_exp (spec_engine N) y4 = Inl FXoverflowError \<and> integerBits (family y4) = 4 \<and>
        fx_exp (spec_engine N) y8 = Inl FXoverflowError \<and> integerBits (family y8) = 8 \<and>
        fx_exp (spec_engine N) y16 = Inl FXoverflowError \<and> integerBits (family y16) = 16 \<and>
        fx_exp (spec_engine N) y32 = Inl FXoverflowError \<and> integerBits (family y32) = 32"
    by (rule overflowDemo_spec_normal)
next
  show "overflowDemo ref_engine =
     Some ([Print [Txt ''=== '', IntD 20, Txt ''-bit fractional part ===''],
        Print [Int2d 4, Txt ''-bit integer part: exp(x) overflows near x='', Float3g \<lparr>scaledValue = 2201997, family = \<lparr>resolution = 20, integerBits = 4\<rparr>\<rparr>],
        Print [Int2d 8, Txt ''-bit integer part: exp(x) overflows near x='', Float3g \<lparr>scaledValue = 5137993, family = \<lparr>resolution = 20, integerBits = 8\<rparr>\<rparr>],
        Print [Int2d 16, Txt ''-bit integer part: exp(x) overflows near x='', Float3g \<lparr>scaledValue = 10905128, family = \<lparr>resolution = 20, integerBits = 16\<rparr>\<rparr>],
        Print [Int2d 32, Txt ''-bit integer part: exp(x) overflows near x='', Float3g \<lparr>scaledValue = 22544255, family = \<lparr>resolution = 20, integerBits = 32\<rparr>\<rparr>],
        Print []], None)"
    by (rule overflowDemo_ref_run)
qed

theorem narrower_width_overflows_no_later_witness:
  "(4::nat) \<le> 32 \<and>
   overflowDemo_body (spec_engine ref_numerics) 20 32 =
     Some ([Print [Int2d 32, Txt ''-bit integer part: exp(x) overflows near x='', Float3g \<lparr>scaledValue = 22544255, family = \<lparr>resolution = 20, integerBits = 32\<rparr>\<rparr>]], None) \<and>
   (\<exists>k1 k2. k1 \<le> k2 \<and>
        \<lparr>scaledValue = 22544255, family = \<lparr>resolution = 20, integerBits = 32\<rparr>\<rparr> = demo_input 20 32 k2 \<and>
        fx_exp (spec_engine ref_numerics) (demo_input 20 32 k2) = Inl FXoverflowError \<and>
        (\<forall>j<k2. \<exists>v. fx_exp (spec_engine ref_numerics) (demo_input 20 32 j) = Inr v) \<and>
        fx_exp (spec_engine ref_numerics) (demo_input 20 4 k1) = Inl FXoverflowError \<and>
        (\<forall>j<k1. \<exists>v. fx_exp (spec_engine ref_numerics) (demo_input 20 4 j) = Inr v) \<and>
        scaledValue (demo_input 20 4 k1) \<le> scaledValue \<lparr>scaledValue = 22544255, family = \<lparr>resolution = 20, integerBits = 32\<rparr>\<rparr> \<and>
        (overflowDemo_body (spec_engine ref_numerics) 20 4 =
           Some ([Print [Int2d (int 4),
                    Txt ''-bit integer part: exp(x) overflows near x='',
                    Float3g (demo_input 20 4 k1)]], None) \<or>
         overflowDemo_body (spec_engine ref_numerics) 20 4 = Some ([], Some FXoverflowError))) \<and>
   overflowDemo (spec_engine ref_numerics) =
     Some ([Print [Txt ''=== '', IntD 20, Txt ''-bit fractional part ===''],
        Print [Int2d 4, Txt ''-bit integer part: exp(x) overflows near x='', Float3g \<lparr>scaledValue = 2201997, family = \<lparr>resolution = 20, integerBits = 4\<rparr>\<rparr>],
        Print [Int2d 8, Txt ''-bit integer part: exp(x) overflows near x='', Float3g \<lparr>scaledValue = 5137993, family = \<lparr>resolution = 20, integerBits = 8\<rparr>\<rparr>],
        Print [Int2d 16, Txt ''-bit integer part: exp(x) overflows near x='', Float3g \<lparr>scaledValue = 10905128, family = \<lparr>resolution = 20, integerBits = 16\<rparr>\<rparr>],
        Print [Int2d 32, Txt ''-bit integer part: exp(x) overflows near x='', Float3g \<lparr>scaledValue = 22544255, family = \<lparr>resolution = 20, integerBits = 32\<rparr>\<rparr>],
        Print []], None) \<and>
   (\<exists>y4 y8 y16 y32.
        [Print [Txt ''=== '', IntD 20, Txt ''-bit fractional part ===''],
        Print [Int2d 4, Txt ''-bit integer part: exp(x) overflows near x='', Float3g \<lparr>scaledValue = 2201997, family = \<lparr>resolution = 20, integerBits = 4\<rparr>\<rparr>],
        Print [Int2d 8, Txt ''-bit integer part: exp(x) overflows near x='', Float3g \<lparr>scaledValue = 5137993, family = \<lparr>resolution = 20, integerBits = 8\<rparr>\<rparr>],
        Print [Int2d 16, Txt ''-bit integer part: exp(x) overflows near x='', Float3g \<lparr>scaledValue = 10905128, family = \<lparr>resolution = 20, integerBits = 16\<rparr>\<rparr>],
        Print [Int2d 32, Txt ''-bit integer part: exp(x) overflows near x='', Float3g \<lparr>scaledValue = 22544255, family = \<lparr>resolution = 20, integerBits = 32\<rparr>\<rparr>],
        Print []] =
          [Print [Txt ''=== '', IntD 20, Txt ''-bit fractional part ===''],
           Print [Int2d 4, Txt ''-bit integer part: exp(x) overflows near x='', Float3g y4],
           Print [Int2d 8, Txt ''-bit integer part: exp(x) overflows near x='', Float3g y8],
           Print [Int2d 16, Txt ''-bit integer part: exp(x) overflows near x='', Float3g y16],
           Print [Int2d 32, Txt ''-bit integer part: exp(x) overflows near x='', Float3g y32],
           Print []] \<and>
        scaledValue y4 \<le> scaledValue y8 \<and>
        scaledValue y8 \<le> scaledValue y16 \<and>
        scaledValue y16 \<le> scaledValue y32 \<and>
        fx_exp (spec_engine ref_numerics) y4 = Inl FXoverflowError \<and> integerBits (family y4) = 4 \<and>
        fx_exp (spec_engine ref_numerics) y8 = Inl FXoverflowError \<and> integerBits (family y8) = 8 \<and>
        fx_exp (spec_engine ref_numerics) y16 = Inl FXoverflowError \<and> integerBits (family y16) = 16 \<and>
        fx_exp (spec_engine ref_numerics) y32 = Inl FXoverflowError \<and> integerBits (family y32) = 32)"
proof -
  have le: "(4::nat) \<le> 32" by simp
  have run: "overflowDemo (spec_engine ref_numerics) =
     Some ([Print [Txt ''=== '', IntD 20, Txt ''-bit fractional part ===''],
        Print [Int2d 4, Txt ''-bit integer part: exp(x) overflows near x='', Float3g \<lparr>scaledValue = 2201997, family = \<lparr>resolution = 20, integerBits = 4\<rparr>\<rparr>],
        Print [Int2d 8, Txt ''-bit integer part: exp(x) overflows near x='', Float3g \<lparr>scaledValue = 5137993, family = \<lparr>resolution = 20, integerBits = 8\<rparr>\<rparr>],
        Print [Int2d 16, Txt ''-bit integer part: exp(x) overflows near x='', Float3g \<lparr>scaledValue = 10905128, family = \<lparr>resolution = 20, integerBits = 16\<rparr>\<rparr>],
        Print [Int2d 32, Txt ''-bit integer part: exp(x) overflows near x='', Float3g \<lparr>scaledValue = 22544255, family = \<lparr>resolution = 20, integerBits = 32\<rparr>\<rparr>],
        Print []], None)"
    using overflowDemo_ref_run by (simp add: ref_engine_def)
  note T = narrower_width_overflows_no_later
    [where ?w1.0 = 4 and ?w2.0 = 32 and N = ref_numerics and res = 20
       and ?i2.0 = "Int2d 32"
       and ?t2.0 = "Txt ''-bit integer part: exp(x) overflows near x=''"
       and ?y2.0 = "\<lparr>scaledValue = 22544255, family = \<lparr>resolution = 20, integerBits = 32\<rparr>\<rparr>"
       and out = "[Print [Txt ''=== '', IntD 20, Txt ''-bit fractional part ===''],
        Print [Int2d 4, Txt ''-bit integer part: exp(x) overflows near x='', Float3g \<lparr>scaledValue = 2201997, family = \<lparr>resolution = 20, integerBits = 4\<rparr>\<rparr>],
        Print [Int2d 8, Txt ''-bit integer part: exp(x) overflows near x='', Float3g \<lparr>scaledValue = 5137993, family = \<lparr>resolution = 20, integerBits = 8\<rparr>\<rparr>],
        Print [Int2d 16, Txt ''-bit integer part: exp(x) overflows near x='', Float3g \<lparr>scaledValue = 10905128, family = \<lparr>resolution = 20, integerBits = 16\<rparr>\<rparr>],
        Print [Int2d 32, Txt ''-bit integer part: exp(x) overflows near x='', Float3g \<lparr>scaledValue = 22544255, family = \<lparr>resolution = 20, integerBits = 32\<rparr>\<rparr>],
        Print []]"]
  from T le ref_body_width32 have pair: "\<exists>k1 k2. k1 \<le> k2 \<and>
        \<lparr>scaledValue = 22544255, family = \<lparr>resolution = 20, integerBits = 32\<rparr>\<rparr> = demo_input 20 32 k2 \<and>
        fx_exp (spec_engine ref_numerics) (demo_input 20 32 k2) = Inl FXoverflowError \<and>
        (\<forall>j<k2. \<exists>v. fx_exp (spec_engine ref_numerics) (demo_input 20 32 j) = Inr v) \<and>
        fx_exp (spec_engine ref_numerics) (demo_input 20 4 k1) = Inl FXoverflowError \<and>
        (\<forall>j<k1. \<exists>v. fx_exp (spec_engine ref_numerics) (demo_input 20 4 j) = Inr v) \<and>
        scaledValue (demo_input 20 4 k1) \<le> scaledValue \<lparr>scaledValue = 22544255, family = \<lparr>resolution = 20, integerBits = 32\<rparr>\<rparr> \<and>
        (overflowDemo_body (spec_engine ref_numerics) 20 4 =
           Some ([Print [Int2d (int 4),
                    Txt ''-bit integer part: exp(x) overflows near x='',
                    Float3g (demo_input 20 4 k1)]], None) \<or>
         overflowDemo_body (spec_engine ref_numerics) 20 4 = Some ([], Some FXoverflowError))"
    by blast
  from T run have demo: "\<exists>y4 y8 y16 y32.
        [Print [Txt ''=== '', IntD 20, Txt ''-bit fractional part ===''],
        Print [Int2d 4, Txt ''-bit integer part: exp(x) overflows near x='', Float3g \<lparr>scaledValue = 2201997, family = \<lparr>resolution = 20, integerBits = 4\<rparr>\<rparr>],
        Print [Int2d 8, Txt ''-bit integer part: exp(x) overflows near x='', Float3g \<lparr>scaledValue = 5137993, family = \<lparr>resolution = 20, integerBits = 8\<rparr>\<rparr>],
        Print [Int2d 16, Txt ''-bit integer part: exp(x) overflows near x='', Float3g \<lparr>scaledValue = 10905128, family = \<lparr>resolution = 20, integerBits = 16\<rparr>\<rparr>],
        Print [Int2d 32, Txt ''-bit integer part: exp(x) overflows near x='', Float3g \<lparr>scaledValue = 22544255, family = \<lparr>resolution = 20, integerBits = 32\<rparr>\<rparr>],
        Print []] =
          [Print [Txt ''=== '', IntD 20, Txt ''-bit fractional part ===''],
           Print [Int2d 4, Txt ''-bit integer part: exp(x) overflows near x='', Float3g y4],
           Print [Int2d 8, Txt ''-bit integer part: exp(x) overflows near x='', Float3g y8],
           Print [Int2d 16, Txt ''-bit integer part: exp(x) overflows near x='', Float3g y16],
           Print [Int2d 32, Txt ''-bit integer part: exp(x) overflows near x='', Float3g y32],
           Print []] \<and>
        scaledValue y4 \<le> scaledValue y8 \<and>
        scaledValue y8 \<le> scaledValue y16 \<and>
        scaledValue y16 \<le> scaledValue y32 \<and>
        fx_exp (spec_engine ref_numerics) y4 = Inl FXoverflowError \<and> integerBits (family y4) = 4 \<and>
        fx_exp (spec_engine ref_numerics) y8 = Inl FXoverflowError \<and> integerBits (family y8) = 8 \<and>
        fx_exp (spec_engine ref_numerics) y16 = Inl FXoverflowError \<and> integerBits (family y16) = 16 \<and>
        fx_exp (spec_engine ref_numerics) y32 = Inl FXoverflowError \<and> integerBits (family y32) = 32"
    by blast
  from le ref_body_width32 pair run demo show ?thesis
    by blast
qed

section \<open>main and the registry of demos\<close>

text \<open>
  Claim C7. The registry holds \<^verbatim>\<open>basic\<close>, \<^verbatim>\<open>overflow\<close> and \<^verbatim>\<open>speed\<close> whatever the
  imports did, and \<^verbatim>\<open>piplot\<close> and \<^verbatim>\<open>piaccplot\<close> after them exactly when
  \<^verbatim>\<open>HAVE_MATPLOTLIB\<close> holds, which it does exactly when matplotlib, numpy and
  matplotlib.pyplot were all imported. Without them, asking for a plotting demo raises
  \<^verbatim>\<open>KeyError\<close>, and the three other demos are called as ever.
\<close>

theorem plotting_demos_optional:
  "map fst (demos E env) =
     [''basic'', ''overflow'', ''speed'']
     @ (if HAVE_MATPLOTLIB env then [''piplot'', ''piaccplot''] else []) \<and>
   (HAVE_MATPLOTLIB env \<longleftrightarrow> import_matplotlib env \<and> import_numpy env \<and> import_pyplot env) \<and>
   call_demo (demos E env) ''basic'' = Some (basicDemo E) \<and>
   call_demo (demos E env) ''overflow'' = overflowDemo E \<and>
   call_demo (demos E env) ''speed'' = Some (speedDemo E) \<and>
   call_demo (demos E env) ''piplot'' =
     (if HAVE_MATPLOTLIB env then Some (piPlot E) else Some ([], Some KeyError)) \<and>
   call_demo (demos E env) ''piaccplot'' =
     (if HAVE_MATPLOTLIB env then Some (piAccuracyPlot E) else Some ([], Some KeyError))"
  by (simp add: demos_def call_demo_def HAVE_MATPLOTLIB_def)

theorem plotting_demos_optional_witness:
  "map fst (demos ref_engine
      \<lparr>import_matplotlib = True, import_numpy = False, import_pyplot = True\<rparr>)
     = [''basic'', ''overflow'', ''speed''] \<and>
   call_demo (demos ref_engine
      \<lparr>import_matplotlib = True, import_numpy = False, import_pyplot = True\<rparr>) ''piplot''
     = Some ([], Some KeyError) \<and>
   map fst (demos ref_engine
      \<lparr>import_matplotlib = True, import_numpy = True, import_pyplot = True\<rparr>)
     = [''basic'', ''overflow'', ''speed'', ''piplot'', ''piaccplot''] \<and>
   call_demo (demos ref_engine
      \<lparr>import_matplotlib = True, import_numpy = True, import_pyplot = True\<rparr>) ''piplot''
     = Some (piPlot ref_engine)"
  using plotting_demos_optional
          [of ref_engine "\<lparr>import_matplotlib = True, import_numpy = False, import_pyplot = True\<rparr>"]
        plotting_demos_optional
          [of ref_engine "\<lparr>import_matplotlib = True, import_numpy = True, import_pyplot = True\<rparr>"]
  by simp

section \<open>What basicDemo prints\<close>

text \<open>
  Claim C6. When, for each resolution of 8, 32, 80 and 274 bits, the Family is built, the
  Number 2 is built under it, its square root \<open>rt\<close> and the product \<open>rt * rt\<close> are
  computed and the constant \<open>exp1\<close> of the Family is read, \<^verbatim>\<open>basicDemo\<close> prints for
  each resolution, in this order, the heading, the root, the root times itself, the
  constant and an empty line, and ends without an exception.
\<close>

theorem basicDemo_prints:
  assumes "\<forall>r \<in> set [8, 32, 80, 274].
             FXfamily E r None = Inr (F r) \<and>
             FXnum E (IntLit 2) (F r) = Inr (two r) \<and>
             fx_sqrt E (two r) = Inr (rt r) \<and>
             fx_mul E (rt r) (Num (rt r)) = Inr (sq r) \<and>
             fx_constant E Exp1 (F r) = Inr (e1 r)"
  shows "basicDemo E =
           (concat (map (\<lambda>r. [Print [Txt ''=== '', IntD (int r), Txt '' bits ===''],
                              Print [Txt ''sqrt('', IntD 2, Txt '')~ '', Str (rt r)],
                              Print [Txt ''sqrt('', IntD 2, Txt '')^2 ~ '', Str (sq r)],
                              Print [Txt ''exp(1) ~ '', Str (e1 r)],
                              Print []])
                        [8, 32, 80, 274]),
            None)"
proof -
  have body: "basicDemo_body E r =
      ([Print [Txt ''=== '', IntD (int r), Txt '' bits ===''],
        Print [Txt ''sqrt('', IntD 2, Txt '')~ '', Str (rt r)],
        Print [Txt ''sqrt('', IntD 2, Txt '')^2 ~ '', Str (sq r)],
        Print [Txt ''exp(1) ~ '', Str (e1 r)],
        Print []], None)"
    if "r \<in> set [8, 32, 80, 274]" for r
    using bspec[OF assms that] by (simp add: basicDemo_body_def)
  show ?thesis
    by (simp add: basicDemo_def body)
qed

text \<open>On the reference engine every call of the demo goes through, at any resolution.\<close>

lemma bit_length_power2: "bit_length (2 ^ k) = Suc k"
proof (induction k)
  case 0
  show ?case by (simp add: bit_length.simps)
next
  case (Suc k)
  have "bit_length (2 ^ Suc k) = Suc (bit_length (2 ^ Suc k div 2))"
    by (subst bit_length.simps) simp
  with Suc show ?case by simp
qed

lemma newton_sqrt_bounds: "0 \<le> newton_sqrt v x \<and> (0 < x \<longrightarrow> newton_sqrt v x \<le> x)"
proof (induction v x rule: newton_sqrt.induct)
  case (1 v x)
  show ?case
  proof (cases "x \<le> 0")
    case True
    then show ?thesis by (simp add: newton_sqrt.simps)
  next
    case False
    define y where "y = (x + v div x) div 2"
    show ?thesis
    proof (cases "y < x")
      case True
      with False have eq: "newton_sqrt v x = newton_sqrt v y"
        by (subst newton_sqrt.simps) (simp add: y_def Let_def)
      from "1.IH"[OF False y_def True]
      have ih: "0 \<le> newton_sqrt v y \<and> (0 < y \<longrightarrow> newton_sqrt v y \<le> y)" .
      have "newton_sqrt v y \<le> x"
      proof (cases "0 < y")
        case True
        with ih \<open>y < x\<close> show ?thesis by simp
      next
        case False
        then have "newton_sqrt v y = 0" by (simp add: newton_sqrt.simps)
        with \<open>\<not> x \<le> 0\<close> show ?thesis by simp
      qed
      with ih eq show ?thesis by simp
    next
      case ge: False
      with False have "newton_sqrt v x = x"
        by (subst newton_sqrt.simps) (simp add: y_def Let_def)
      with False show ?thesis by simp
    qed
  qed
qed

lemma ref_sqrt_two_bounds:
  "0 \<le> ref_sqrt r (2 * 2 ^ r) \<and> ref_sqrt r (2 * 2 ^ r) \<le> 2 * 2 ^ r + 1"
proof -
  have n: "(2::int) * 2 ^ r * 2 ^ r = 2 ^ (Suc (r + r))"
    by (simp only: power_Suc power_add mult.assoc)
  have "bit_length (2 * 2 ^ r * 2 ^ r) = Suc (Suc (r + r))"
    unfolding n by (rule bit_length_power2)
  moreover have "(Suc (Suc (r + r)) + 1) div 2 = Suc r"
    by arith
  ultimately have seed: "(2::int) ^ ((bit_length (2 * 2 ^ r * 2 ^ r) + 1) div 2) = 2 * 2 ^ r"
    by (simp only: power_Suc)
  define t where "t = newton_sqrt (2 * 2 ^ r * 2 ^ r) (2 * 2 ^ r)"
  have rt: "ref_sqrt r (2 * 2 ^ r) = (if t < 2 * 2 ^ r * 2 ^ r - t * t then t + 1 else t)"
    unfolding ref_sqrt_def Let_def seed t_def ..
  have "(0::int) < 2 * 2 ^ r" by simp
  then have "0 \<le> t \<and> t \<le> 2 * 2 ^ r"
    using newton_sqrt_bounds[of "2 * 2 ^ r * 2 ^ r" "2 * 2 ^ r"] by (simp add: t_def)
  with rt show ?thesis by simp
qed

lemma e_series_bounds:
  "2 \<le> k \<Longrightarrow> 0 \<le> t \<Longrightarrow> acc \<le> e_series k t acc \<and> e_series k t acc \<le> acc + t"
proof (induction k t acc rule: e_series.induct)
  case (1 k t acc)
  define t' where "t' = t div k"
  have t': "0 \<le> t'" "2 * t' \<le> t"
  proof -
    show "0 \<le> t'" using 1(2,3) by (simp add: t'_def pos_imp_zdiv_nonneg_iff)
    have "k * (t div k) + t mod k = t" by (rule mult_div_mod_eq)
    moreover have "0 \<le> t mod k" using 1(2) by (intro pos_mod_sign) simp
    ultimately have "k * t' \<le> t" unfolding t'_def by linarith
    moreover have "2 * t' \<le> k * t'" using 1(2) \<open>0 \<le> t'\<close> by (simp add: mult_right_mono)
    ultimately show "2 * t' \<le> t" by simp
  qed
  show ?case
  proof (cases "t' \<le> 0 \<or> t \<le> t'")
    case True
    then have "e_series k t acc = acc"
      by (subst e_series.simps) (simp add: t'_def Let_def)
    with 1(3) show ?thesis by simp
  next
    case False
    then have eq: "e_series k t acc = e_series (k + 1) t' (acc + t')"
      by (subst e_series.simps) (simp add: t'_def Let_def)
    from "1.IH"[OF t'_def False] 1(2) t'(1)
    have "acc + t' \<le> e_series (k + 1) t' (acc + t') \<and>
          e_series (k + 1) t' (acc + t') \<le> acc + t' + t'" by simp
    with eq t' show ?thesis by simp
  qed
qed


lemma in_range_default32:
  assumes "0 \<le> v" and "v \<le> 16 * 2 ^ r"
  shows "in_range \<lparr>resolution = r, integerBits = 32\<rparr> v"
proof -
  have "(16::int) * 2 ^ r < 2 ^ 31 * 2 ^ r" by simp
  also have "\<dots> = 2 ^ (r + 32 - 1)" by (simp add: power_add)
  finally show ?thesis using assms by (simp add: in_range_def)
qed

lemma ref_square_bounds:
  assumes "0 \<le> s" and "s \<le> 2 * 2 ^ r + 1"
  shows "0 \<le> round_div (s * s) (2 ^ r) \<and> round_div (s * s) (2 ^ r) \<le> 10 * 2 ^ r"
proof -
  have one: "(1::int) \<le> 2 ^ r" by simp
  with assms(2) have s3: "s \<le> 3 * 2 ^ r" by linarith
  have ss: "s * s \<le> (3 * 2 ^ r) * (3 * 2 ^ r)"
    using assms(1) s3 by (intro mult_mono) auto
  from ss have ss9: "s * s \<le> 9 * ((2::int) ^ r * 2 ^ r)" by simp
  have p: "(2::int) ^ r \<le> 2 ^ r * 2 ^ r" by simp
  have q: "0 \<le> (2::int) ^ r * 2 ^ r" by simp
  from ss9 p q have "2 * (s * s) + 2 ^ r \<le> 20 * ((2::int) ^ r * 2 ^ r)" by linarith
  then have num: "2 * (s * s) + 2 ^ r \<le> (10 * 2 ^ r) * (2 * 2 ^ r)" by simp
  have "0 \<le> 2 * (s * s) + (2::int) ^ r" using assms by simp
  then have lo: "0 \<le> (2 * (s * s) + 2 ^ r) div (2 * 2 ^ r)"
    by (simp add: pos_imp_zdiv_nonneg_iff)
  have "(2 * (s * s) + 2 ^ r) div (2 * 2 ^ r) \<le> ((10 * 2 ^ r) * (2 * 2 ^ r)) div (2 * 2 ^ r)"
    using num by (intro zdiv_mono1) auto
  also have "\<dots> = 10 * 2 ^ r" by simp
  finally show ?thesis using lo by (simp add: round_div_def)
qed

lemma ref_exp1_bounds:
  "0 \<le> ref_const Exp1 (r + 8) div 2 ^ 8 \<and> ref_const Exp1 (r + 8) div 2 ^ 8 \<le> 3 * 2 ^ r"
proof -
  let ?p = "r + 8"
  have b: "2 * 2 ^ ?p \<le> e_series 2 (2 ^ ?p) (2 * 2 ^ ?p) \<and>
           e_series 2 (2 ^ ?p) (2 * 2 ^ ?p) \<le> 2 * 2 ^ ?p + 2 ^ ?p"
    by (rule e_series_bounds) auto
  then have lo: "0 \<le> e_series 2 (2 ^ ?p) (2 * 2 ^ ?p) div 2 ^ 8"
    by (simp add: pos_imp_zdiv_nonneg_iff)
  have "e_series 2 (2 ^ ?p) (2 * 2 ^ ?p) div 2 ^ 8 \<le> ((3 * 2 ^ r) * 2 ^ 8) div 2 ^ 8"
    using b by (intro zdiv_mono1) (auto simp: power_add)
  also have "\<dots> = 3 * 2 ^ r" by simp
  finally show ?thesis using lo by (simp add: ref_const_def)
qed

text \<open>
  At the resolutions 8, 32 and 80 of the demo the reference root of 2, multiplied by
  itself, is 2 to the last place.
\<close>

lemma ref_sqrt_two_squared:
  "round_div (ref_sqrt 8 (2 * 2 ^ 8) * ref_sqrt 8 (2 * 2 ^ 8)) (2 ^ 8) = 2 * 2 ^ 8"
  "round_div (ref_sqrt 32 (2 * 2 ^ 32) * ref_sqrt 32 (2 * 2 ^ 32)) (2 ^ 32) = 2 * 2 ^ 32"
  "round_div (ref_sqrt 80 (2 * 2 ^ 80) * ref_sqrt 80 (2 * 2 ^ 80)) (2 ^ 80) = 2 * 2 ^ 80"
  by code_simp+

lemma ref_basic_calls:
  "FXfamily ref_engine r None = Inr \<lparr>resolution = r, integerBits = 32\<rparr> \<and>
   FXnum ref_engine (IntLit 2) \<lparr>resolution = r, integerBits = 32\<rparr>
     = Inr \<lparr>scaledValue = 2 * 2 ^ r, family = \<lparr>resolution = r, integerBits = 32\<rparr>\<rparr> \<and>
   fx_sqrt ref_engine \<lparr>scaledValue = 2 * 2 ^ r, family = \<lparr>resolution = r, integerBits = 32\<rparr>\<rparr>
     = Inr \<lparr>scaledValue = ref_sqrt r (2 * 2 ^ r),
             family = \<lparr>resolution = r, integerBits = 32\<rparr>\<rparr> \<and>
   fx_mul ref_engine
       \<lparr>scaledValue = ref_sqrt r (2 * 2 ^ r), family = \<lparr>resolution = r, integerBits = 32\<rparr>\<rparr>
       (Num \<lparr>scaledValue = ref_sqrt r (2 * 2 ^ r),
             family = \<lparr>resolution = r, integerBits = 32\<rparr>\<rparr>)
     = Inr \<lparr>scaledValue = round_div (ref_sqrt r (2 * 2 ^ r) * ref_sqrt r (2 * 2 ^ r)) (2 ^ r),
             family = \<lparr>resolution = r, integerBits = 32\<rparr>\<rparr> \<and>
   fx_constant ref_engine Exp1 \<lparr>resolution = r, integerBits = 32\<rparr>
     = Inr \<lparr>scaledValue = ref_const Exp1 (r + 8) div 2 ^ 8,
             family = \<lparr>resolution = r, integerBits = 32\<rparr>\<rparr>"
proof -
  let ?F = "\<lparr>resolution = r, integerBits = 32\<rparr>"
  have two: "in_range ?F (2 * 2 ^ r)"
    by (rule in_range_default32) auto
  note s = ref_sqrt_two_bounds[of r]
  have one: "(1::int) \<le> 2 ^ r" by simp
  have rt: "in_range ?F (ref_sqrt r (2 * 2 ^ r))"
  proof (rule in_range_default32)
    show "0 \<le> ref_sqrt r (2 * 2 ^ r)" using s by simp
    show "ref_sqrt r (2 * 2 ^ r) \<le> 16 * 2 ^ r" using s one by linarith
  qed
  have sq: "in_range ?F (round_div (ref_sqrt r (2 * 2 ^ r) * ref_sqrt r (2 * 2 ^ r)) (2 ^ r))"
  proof (rule in_range_default32)
    note b = ref_square_bounds[of "ref_sqrt r (2 * 2 ^ r)" r]
    show "0 \<le> round_div (ref_sqrt r (2 * 2 ^ r) * ref_sqrt r (2 * 2 ^ r)) (2 ^ r)"
      using b s by simp
    show "round_div (ref_sqrt r (2 * 2 ^ r) * ref_sqrt r (2 * 2 ^ r)) (2 ^ r) \<le> 16 * 2 ^ r"
      using b s one by linarith
  qed
  have e1: "in_range ?F (ref_const Exp1 (r + 8) div 2 ^ 8)"
  proof (rule in_range_default32)
    note b = ref_exp1_bounds[of r]
    show "0 \<le> ref_const Exp1 (r + 8) div 2 ^ 8" using b by simp
    show "ref_const Exp1 (r + 8) div 2 ^ 8 \<le> 16 * 2 ^ r" using b one by linarith
  qed
  from s have nonneg: "\<not> ref_sqrt r (2 * 2 ^ r) < 0" by simp
  have "\<not> (2::int) * 2 ^ r < 0" by simp
  with two rt sq e1 nonneg show ?thesis
    by (simp add: ref_engine_def spec_engine_def spec_FXfamily_def spec_FXnum_def
          spec_sqrt_def spec_mul_def promote_def compute_constant_def validate_def
          ref_numerics_def)
qed

theorem basicDemo_prints_witness:
  "basicDemo ref_engine =
     (concat (map (\<lambda>r. [Print [Txt ''=== '', IntD (int r), Txt '' bits ===''],
                        Print [Txt ''sqrt('', IntD 2, Txt '')~ '',
                          Str \<lparr>scaledValue = ref_sqrt r (2 * 2 ^ r),
                               family = \<lparr>resolution = r, integerBits = 32\<rparr>\<rparr>],
                        Print [Txt ''sqrt('', IntD 2, Txt '')^2 ~ '',
                          Str \<lparr>scaledValue =
                                 round_div (ref_sqrt r (2 * 2 ^ r) * ref_sqrt r (2 * 2 ^ r))
                                   (2 ^ r),
                               family = \<lparr>resolution = r, integerBits = 32\<rparr>\<rparr>],
                        Print [Txt ''exp(1) ~ '',
                          Str \<lparr>scaledValue = ref_const Exp1 (r + 8) div 2 ^ 8,
                               family = \<lparr>resolution = r, integerBits = 32\<rparr>\<rparr>],
                        Print []])
                  [8, 32, 80, 274]),
      None)"
proof -
  have calls: "\<forall>r \<in> set [8, 32, 80, 274].
      FXfamily ref_engine r None = Inr ((\<lambda>r. \<lparr>resolution = r, integerBits = 32\<rparr>) r) \<and>
      FXnum ref_engine (IntLit 2) ((\<lambda>r. \<lparr>resolution = r, integerBits = 32\<rparr>) r)
        = Inr ((\<lambda>r. \<lparr>scaledValue = 2 * 2 ^ r,
                        family = \<lparr>resolution = r, integerBits = 32\<rparr>\<rparr>) r) \<and>
      fx_sqrt ref_engine
          ((\<lambda>r. \<lparr>scaledValue = 2 * 2 ^ r,
                  family = \<lparr>resolution = r, integerBits = 32\<rparr>\<rparr>) r)
        = Inr ((\<lambda>r. \<lparr>scaledValue = ref_sqrt r (2 * 2 ^ r),
                        family = \<lparr>resolution = r, integerBits = 32\<rparr>\<rparr>) r) \<and>
      fx_mul ref_engine
          ((\<lambda>r. \<lparr>scaledValue = ref_sqrt r (2 * 2 ^ r),
                  family = \<lparr>resolution = r, integerBits = 32\<rparr>\<rparr>) r)
          (Num ((\<lambda>r. \<lparr>scaledValue = ref_sqrt r (2 * 2 ^ r),
                       family = \<lparr>resolution = r, integerBits = 32\<rparr>\<rparr>) r))
        = Inr ((\<lambda>r. \<lparr>scaledValue =
                          round_div (ref_sqrt r (2 * 2 ^ r) * ref_sqrt r (2 * 2 ^ r)) (2 ^ r),
                        family = \<lparr>resolution = r, integerBits = 32\<rparr>\<rparr>) r) \<and>
      fx_constant ref_engine Exp1 ((\<lambda>r. \<lparr>resolution = r, integerBits = 32\<rparr>) r)
        = Inr ((\<lambda>r. \<lparr>scaledValue = ref_const Exp1 (r + 8) div 2 ^ 8,
                        family = \<lparr>resolution = r, integerBits = 32\<rparr>\<rparr>) r)"
    using ref_basic_calls by blast
  from basicDemo_prints [OF calls] show ?thesis by simp
qed

end
